theory Spec2Isabelle
  imports Main
begin

section \<open>Machine integers of the target board\<close>

text \<open>
  The controller runs on an 8-bit AVR board (Arduino Nano): \<open>int\<close> has 16 bits and
  \<open>long\<close> has 32. The source relies on it: \<open>updateSensitivityReadout\<close> tests
  \<open>forwardSensPercent - incAmount > 100\<close> to detect a value below zero, "exhibited by
  overflow to 65k". Values are modelled as \<open>int\<close>, and every conversion the C code
  performs is written out:
  \<^item> \<open>u8\<close>, \<open>u16\<close>: the value of an expression stored in, or computed as, an unsigned
    8-bit or 16-bit integer;
  \<^item> \<open>s16\<close>: the value stored in, or computed as, a signed 16-bit integer.
  \<open>uint16_t\<close> is \<open>unsigned int\<close> there, so an operation between a \<open>uint16_t\<close> and an
  \<open>int16_t\<close> is carried out on unsigned 16-bit values, comparisons included.
\<close>

definition u8 :: "int \<Rightarrow> int" where
  "u8 x = x mod 256"

definition u16 :: "int \<Rightarrow> int" where
  "u16 x = x mod 65536"

definition s16 :: "int \<Rightarrow> int" where
  "s16 x = (x + 32768) mod 65536 - 32768"

text \<open>Division of C: the quotient is truncated towards zero.\<close>

definition cdiv :: "int \<Rightarrow> int \<Rightarrow> int" where
  "cdiv a b = sgn a * sgn b * (\<bar>a\<bar> div \<bar>b\<bar>)"

text \<open>
  \<open>map\<close> of the Arduino core library (not part of this repository), on \<open>long\<close>:
  \<^verbatim>\<open>return (x - in_min) * (out_max - out_min) / (in_max - in_min) + out_min;\<close>
  At every call of the program the operands are 16-bit values and the first factor is at
  most 1024 in magnitude, so the 32-bit product does not overflow.
\<close>

definition arduino_map :: "int \<Rightarrow> int \<Rightarrow> int \<Rightarrow> int \<Rightarrow> int \<Rightarrow> int" where
  "arduino_map x in_min in_max out_min out_max =
     cdiv ((x - in_min) * (out_max - out_min)) (in_max - in_min) + out_min"

section \<open>Constants of the program\<close>

definition MIN_FORWARD_THRESH :: int where "MIN_FORWARD_THRESH = 600"
definition MAX_FORWARD_THRESH :: int where "MAX_FORWARD_THRESH = 1000"
definition MIN_REVERSE_THRESH :: int where "MIN_REVERSE_THRESH = 0"
definition MAX_REVERSE_THRESH :: int where "MAX_REVERSE_THRESH = 400"
definition MIN_LEFT_THRESH :: int where "MIN_LEFT_THRESH = 0"
definition MAX_LEFT_THRESH :: int where "MAX_LEFT_THRESH = 400"
definition MIN_RIGHT_THRESH :: int where "MIN_RIGHT_THRESH = 600"
definition MAX_RIGHT_THRESH :: int where "MAX_RIGHT_THRESH = 1000"
definition MIN_SPEED_LIMIT :: int where "MIN_SPEED_LIMIT = 72"
definition MAX_SPEED_LIMIT :: int where "MAX_SPEED_LIMIT = 512"
definition MIN_INCREASE_RAMPING :: int where "MIN_INCREASE_RAMPING = 1"
definition MAX_INCREASE_RAMPING :: int where "MAX_INCREASE_RAMPING = 30"
definition MIN_DECREASE_RAMPING :: int where "MIN_DECREASE_RAMPING = 1"
definition MAX_DECREASE_RAMPING :: int where "MAX_DECREASE_RAMPING = 30"

definition REVERSE_PULSE :: int where "REVERSE_PULSE = 1000"
definition FORWARD_PULSE :: int where "FORWARD_PULSE = 2000"
definition NEUTRAL_SPEED :: int where "NEUTRAL_SPEED = 500"

section \<open>Configuration: percentages, thresholds and rates\<close>

text \<open>
  The seven percentages shown on the display (\<open>uint16_t\<close> globals) and the seven values
  the motion code reads (\<open>uint16_t\<close> thresholds and speed limit, \<open>int16_t\<close> rates).
\<close>

record Percents =
  forwardSensPercent :: int
  reverseSensPercent :: int
  leftSensPercent :: int
  rightSensPercent :: int
  speedLimitPercent :: int
  accRatePercent :: int
  decRatePercent :: int

record Settings =
  forwardThresh :: int
  reverseThresh :: int
  leftThresh :: int
  rightThresh :: int
  speedLimit :: int
  accRate :: int
  decRate :: int

text \<open>
  The EEPROM is a map from addresses to stored values; \<open>EEPROM.read\<close> returns one byte.
  The addresses are the globals \<open>FORWARD_SENS_ADDRESS = 1\<close> to \<open>DEC_RATE_ADDRESS = 7\<close>.
\<close>

type_synonym eeprom = "int \<Rightarrow> int"

definition EEPROM_read :: "eeprom \<Rightarrow> int \<Rightarrow> int" where
  "EEPROM_read e a = u8 (e a)"

text \<open>\<open>setup\<close>, branch \<open>USE_LCD\<close>: the values read from the EEPROM.\<close>

definition readPercents :: "eeprom \<Rightarrow> Percents" where
  "readPercents e =
     \<lparr> forwardSensPercent = EEPROM_read e 1,
       reverseSensPercent = EEPROM_read e 2,
       leftSensPercent = EEPROM_read e 3,
       rightSensPercent = EEPROM_read e 4,
       speedLimitPercent = EEPROM_read e 5,
       accRatePercent = EEPROM_read e 6,
       decRatePercent = EEPROM_read e 7 \<rparr>"

text \<open>\<open>setup\<close>: \<open>if (forwardSensPercent > 100) forwardSensPercent = 100;\<close> and so on.\<close>

definition clampPercents :: "Percents \<Rightarrow> Percents" where
  "clampPercents p =
     \<lparr> forwardSensPercent = (if forwardSensPercent p > 100 then 100 else forwardSensPercent p),
       reverseSensPercent = (if reverseSensPercent p > 100 then 100 else reverseSensPercent p),
       leftSensPercent = (if leftSensPercent p > 100 then 100 else leftSensPercent p),
       rightSensPercent = (if rightSensPercent p > 100 then 100 else rightSensPercent p),
       speedLimitPercent = (if speedLimitPercent p > 100 then 100 else speedLimitPercent p),
       accRatePercent = (if accRatePercent p > 100 then 100 else accRatePercent p),
       decRatePercent = (if decRatePercent p > 100 then 100 else decRatePercent p) \<rparr>"

text \<open>
  \<open>setup\<close>: "Convert EEPROM read values from percents to counts". The forward and right
  thresholds fall as the percentage grows (from \<open>MAX_\<close> to \<open>MIN_\<close>).
\<close>

definition setupSettings :: "Percents \<Rightarrow> Settings" where
  "setupSettings p =
     \<lparr> forwardThresh =
         u16 (arduino_map (forwardSensPercent p) 0 100 MAX_FORWARD_THRESH MIN_FORWARD_THRESH),
       reverseThresh =
         u16 (arduino_map (reverseSensPercent p) 0 100 MIN_REVERSE_THRESH MAX_REVERSE_THRESH),
       leftThresh =
         u16 (arduino_map (leftSensPercent p) 0 100 MIN_LEFT_THRESH MAX_LEFT_THRESH),
       rightThresh =
         u16 (arduino_map (rightSensPercent p) 0 100 MAX_RIGHT_THRESH MIN_RIGHT_THRESH),
       speedLimit =
         u16 (arduino_map (speedLimitPercent p) 0 100 MIN_SPEED_LIMIT MAX_SPEED_LIMIT),
       accRate =
         s16 (arduino_map (accRatePercent p) 0 100 MIN_INCREASE_RAMPING MAX_INCREASE_RAMPING),
       decRate =
         s16 (arduino_map (decRatePercent p) 0 100 MIN_DECREASE_RAMPING MAX_DECREASE_RAMPING) \<rparr>"

text \<open>\<open>setup\<close> with the display: read, clamp, convert.\<close>

definition setup_LCD :: "eeprom \<Rightarrow> Percents \<times> Settings" where
  "setup_LCD e =
     (let p = clampPercents (readPercents e) in (p, setupSettings p))"

text \<open>
  \<open>loop\<close>, the "Save Values" button with \<open>ALLOW_EEPROM_WRITES\<close>: "Updates motion
  charateristics from EEPROM values". Here all four thresholds go from \<open>MIN_\<close> to \<open>MAX_\<close>.
\<close>

definition saveSettings :: "Percents \<Rightarrow> Settings" where
  "saveSettings p =
     \<lparr> forwardThresh =
         u16 (arduino_map (forwardSensPercent p) 0 100 MIN_FORWARD_THRESH MAX_FORWARD_THRESH),
       reverseThresh =
         u16 (arduino_map (reverseSensPercent p) 0 100 MIN_REVERSE_THRESH MAX_REVERSE_THRESH),
       leftThresh =
         u16 (arduino_map (leftSensPercent p) 0 100 MIN_LEFT_THRESH MAX_LEFT_THRESH),
       rightThresh =
         u16 (arduino_map (rightSensPercent p) 0 100 MIN_RIGHT_THRESH MAX_RIGHT_THRESH),
       speedLimit =
         u16 (arduino_map (speedLimitPercent p) 0 100 MIN_SPEED_LIMIT MAX_SPEED_LIMIT),
       accRate =
         s16 (arduino_map (accRatePercent p) 0 100 MIN_INCREASE_RAMPING MAX_INCREASE_RAMPING),
       decRate =
         s16 (arduino_map (decRatePercent p) 0 100 MIN_DECREASE_RAMPING MAX_DECREASE_RAMPING) \<rparr>"

text \<open>The storage in which every value above 100 is replaced by 100.\<close>

definition clampedStorage :: "eeprom \<Rightarrow> eeprom" where
  "clampedStorage e = (\<lambda>a. min (EEPROM_read e a) 100)"

definition unwrittenStorage :: eeprom where
  "unwrittenStorage = (\<lambda>a. 255)"

text \<open>A storage that holds the same value at every address.\<close>

definition uniformStorage :: "int \<Rightarrow> eeprom" where
  "uniformStorage k = (\<lambda>a. k)"

section \<open>Input classifier and target speeds\<close>

text \<open>
  The four trims are \<open>uint8_t\<close> globals (values 0..255), changed only by the calibration
  wizard.
\<close>

record Trims =
  FWD_LEFT_TRIM :: int
  REV_LEFT_TRIM :: int
  FWD_RIGHT_TRIM :: int
  REV_RIGHT_TRIM :: int

definition defaultTrims :: Trims where
  "defaultTrims =
     \<lparr> FWD_LEFT_TRIM = 0, REV_LEFT_TRIM = 0, FWD_RIGHT_TRIM = 4, REV_RIGHT_TRIM = 0 \<rparr>"

text \<open>
  \<open>getJoystickInputs\<close> passes \<open>512 - (speedLimit / TURN_SPEED_RATIO)\<close> and
  \<open>512 + (speedLimit / TURN_SPEED_RATIO)\<close> to \<open>map\<close>, with the \<open>float\<close> constant
  \<open>TURN_SPEED_RATIO = 1.5\<close>; the conversion to \<open>long\<close> truncates towards zero. The
  exact quotient \<open>2 * speedLimit / 3\<close> has fractional part 0, 1/3 or 2/3, and for a
  16-bit \<open>speedLimit\<close> single precision is off by less than 1/128, so the truncated values are
  those of the exact fractions \<open>(1536 - 2 * speedLimit) / 3\<close> and
  \<open>(1536 + 2 * speedLimit) / 3\<close>.
\<close>

definition turnLow :: "int \<Rightarrow> int" where
  "turnLow s = cdiv (1536 - 2 * s) 3"

definition turnHigh :: "int \<Rightarrow> int" where
  "turnHigh s = cdiv (1536 + 2 * s) 3"

text \<open>
  \<open>getJoystickInputs\<close> up to the call of \<open>setLeftRightMotorSpeeds\<close>: the result is
  \<open>(moveValue, rotateValue)\<close>. Each axis is read twice (\<open>analogRead\<close> is called once for
  each comparison), so the function takes four samples; \<open>analogRead\<close> returns 0..1023.
\<close>

definition getJoystickInputs :: "Settings \<Rightarrow> int \<Rightarrow> int \<Rightarrow> int \<Rightarrow> int \<Rightarrow> int \<times> int" where
  "getJoystickInputs cfg xa xb ya yb =
     (let x_p = (xa > rightThresh cfg);
          x_n = (xb < leftThresh cfg);
          y_p = (ya > forwardThresh cfg);
          y_n = (yb < reverseThresh cfg);
          x0 = (if x_p then 1023 else if x_n then 0 else 512);
          y0 = (if y_p then 1023 else if y_n then 0 else 512);
          x = u16 (arduino_map x0 0 1023 (turnLow (speedLimit cfg)) (turnHigh (speedLimit cfg)));
          y = u16 (arduino_map y0 0 1023 (u16 (512 - speedLimit cfg)) (u16 (512 + speedLimit cfg)));
          moveValue = (if y > 512 then s16 (u16 (y - 512)) else s16 (u16 (- u16 (512 - y))));
          rotateValue0 = (if x > 512 then s16 (u16 (x - 512)) else s16 (u16 (- u16 (512 - x))));
          rotateValue =
            (if rotateValue0 < - 3 \<and> u16 rotateValue0 > u16 (- MIN_SPEED_LIMIT)
               then s16 (u16 (- MIN_SPEED_LIMIT))
             else if rotateValue0 > 3 \<and> u16 rotateValue0 < MIN_SPEED_LIMIT
               then s16 MIN_SPEED_LIMIT
             else rotateValue0)
      in (moveValue, rotateValue))"

text \<open>
  \<open>setLeftRightMotorSpeeds\<close>, first part: the \<open>uint16_t\<close> locals \<open>leftMotorSpeed\<close> and
  \<open>rightMotorSpeed\<close> (initialised to 0) after the \<open>if\<close> chain.
\<close>

definition motorSpeeds :: "Trims \<Rightarrow> int \<Rightarrow> int \<Rightarrow> int \<times> int" where
  "motorSpeeds t moveValue rotateValue =
     (if moveValue > 0
        then (u16 (moveValue - FWD_LEFT_TRIM t), u16 (moveValue - FWD_RIGHT_TRIM t))
      else if moveValue < 0
        then (u16 (moveValue + REV_LEFT_TRIM t), u16 (moveValue + REV_RIGHT_TRIM t))
      else if rotateValue < 0
        then (u16 (rotateValue + REV_LEFT_TRIM t), u16 (- rotateValue - FWD_RIGHT_TRIM t))
      else if rotateValue > 0
        then (u16 (rotateValue - FWD_LEFT_TRIM t), u16 (- rotateValue + REV_RIGHT_TRIM t))
      else (0, 0))"

text \<open>
  The same part of \<open>setLeftRightMotorSpeeds\<close> in
  \<open>GoBabyGo_Car_Controller_With_LCD_Interface_New_Board.ino\<close>: \<open>int\<close> locals, no trims.
\<close>

definition motorSpeeds_New_Board :: "int \<Rightarrow> int \<Rightarrow> int \<times> int" where
  "motorSpeeds_New_Board moveValue rotateValue =
     (if moveValue > 0 then (moveValue, moveValue)
      else if moveValue < 0 then (moveValue, moveValue)
      else if rotateValue < 0 then (rotateValue, s16 (- rotateValue))
      else if rotateValue > 0 then (rotateValue, s16 (- rotateValue))
      else (0, 0))"

section \<open>Drive state, interlock, resync loop and rate limiter\<close>

text \<open>
  The globals of the motion code: the three interlock flags, the statics
  \<open>prevLeftMotorSpeed\<close> and \<open>prevRightMotorSpeed\<close> of \<open>setLeftRightMotorSpeeds\<close>
  (\<open>uint16_t\<close>) and \<open>prevLeft\<close>, \<open>prevRight\<close> of \<open>drive\<close> (\<open>int16_t\<close>).
\<close>

record DriveState =
  directionChanged :: bool
  leftResetComplete :: bool
  rightResetComplete :: bool
  prevLeftMotorSpeed :: int
  prevRightMotorSpeed :: int
  prevLeft :: int
  prevRight :: int

definition coldStart :: DriveState where
  "coldStart =
     \<lparr> directionChanged = False, leftResetComplete = True, rightResetComplete = True,
       prevLeftMotorSpeed = 0, prevRightMotorSpeed = 0, prevLeft = 500, prevRight = 500 \<rparr>"

text \<open>
  \<open>setLeftRightMotorSpeeds\<close>, second part: "Find out if a direction change occured, then
  store the previous speed values".
\<close>

definition commitSpeeds :: "DriveState \<Rightarrow> int \<Rightarrow> int \<Rightarrow> DriveState" where
  "commitSpeeds st leftMotorSpeed rightMotorSpeed =
     (let st1 =
        (if leftMotorSpeed \<noteq> prevLeftMotorSpeed st \<or> rightMotorSpeed \<noteq> prevRightMotorSpeed st
           then st\<lparr> directionChanged := True, leftResetComplete := False,
                    rightResetComplete := False \<rparr>
         else st)
      in st1\<lparr> prevLeftMotorSpeed := leftMotorSpeed, prevRightMotorSpeed := rightMotorSpeed \<rparr>)"

text \<open>
  One motor in one iteration of the loop of \<open>resetMotorSpeeds\<close> (the code for the left and
  for the right motor is the same up to names): \<open>rs\<close> is the local \<open>leftResetSpeed\<close>
  (\<open>uint16_t\<close>), \<open>prev\<close> the global \<open>prevLeft\<close>, \<open>c\<close> the flag \<open>leftResetComplete\<close>.
  The result is the new reset speed and the new flag.
\<close>

definition resetMotor :: "int \<Rightarrow> int \<Rightarrow> int \<Rightarrow> bool \<Rightarrow> int \<times> bool" where
  "resetMotor d rs prev c =
     (if rs > u16 (NEUTRAL_SPEED + d) then (u16 (prev - d), c)
      else if rs < u16 (NEUTRAL_SPEED - d) then (u16 (prev + d), c)
      else (rs, True))"

text \<open>
  One iteration of the loop: the new globals and locals, and the pair of pulse widths
  written to the motors (\<open>DEBUG\<close> is \<open>false\<close>).
\<close>

definition resetIteration ::
  "Settings \<Rightarrow> DriveState \<Rightarrow> int \<Rightarrow> int \<Rightarrow> (DriveState \<times> int \<times> int) \<times> (int \<times> int)" where
  "resetIteration cfg st leftResetSpeed rightResetSpeed =
     (let (lrs, lc) = resetMotor (decRate cfg) leftResetSpeed (prevLeft st) (leftResetComplete st);
          leftMotorPulse = u16 (REVERSE_PULSE + lrs);
          (rrs, rc) = resetMotor (decRate cfg) rightResetSpeed (prevRight st) (rightResetComplete st);
          rightMotorPulse = u16 (REVERSE_PULSE + rrs);
          st1 = st\<lparr> leftResetComplete := lc, prevLeft := s16 lrs,
                    rightResetComplete := rc, prevRight := s16 rrs \<rparr>;
          st2 = (if lc \<and> rc then st1\<lparr> directionChanged := False \<rparr> else st1)
      in ((st2, lrs, rrs), (leftMotorPulse, rightMotorPulse)))"

text \<open>
  \<open>while (directionChanged) { ... }\<close>: the loop has no other exit, so it is a partial
  function; \<open>None\<close> is a loop that never ends. The result is the state on exit and the
  pulse pairs written, one for each iteration.
\<close>

partial_function (option) resetLoop ::
  "Settings \<Rightarrow> DriveState \<Rightarrow> int \<Rightarrow> int \<Rightarrow> (DriveState \<times> (int \<times> int) list) option" where
  "resetLoop cfg st leftResetSpeed rightResetSpeed =
     (if directionChanged st
        then (case resetIteration cfg st leftResetSpeed rightResetSpeed of
                ((st', lrs, rrs), pulses) \<Rightarrow>
                  Option.bind (resetLoop cfg st' lrs rrs)
                    (\<lambda>(st'', out). Some (st'', pulses # out)))
      else Some (st, []))"

declare resetLoop.simps [code]

definition resetMotorSpeeds :: "Settings \<Rightarrow> DriveState \<Rightarrow> (DriveState \<times> (int \<times> int) list) option" where
  "resetMotorSpeeds cfg st = resetLoop cfg st (u16 (prevLeft st)) (u16 (prevRight st))"

text \<open>
  The rate limiter of \<open>drive\<close> for the left motor: \<open>a\<close> is \<open>accRate\<close>, \<open>prev\<close> is
  \<open>prevLeft\<close>, \<open>t\<close> is \<open>leftDriveSpeed\<close> as \<open>map\<close> returned it; the result is
  \<open>leftDriveSpeed\<close> after the \<open>if\<close> chain. The comparisons with \<open>leftDriveSpeed\<close> and with
  \<open>FORWARD_PULSE - REVERSE_PULSE\<close> are unsigned, \<open>prevLeft - accRate > 0\<close> is signed.
\<close>

definition drive_left_ramp :: "int \<Rightarrow> int \<Rightarrow> int \<Rightarrow> int" where
  "drive_left_ramp a prev t =
     (if t > u16 (prev + a)
        then (if u16 (prev + a) < u16 (FORWARD_PULSE - REVERSE_PULSE) then u16 (prev + a)
              else u16 (FORWARD_PULSE - REVERSE_PULSE))
      else if t < u16 (prev - a)
        then (if s16 (prev - a) > 0 then u16 (prev - a) else 0)
      else t)"

text \<open>
  The rate limiter of \<open>drive\<close> for the right motor. Its inner test is
  \<open>rightDriveSpeed < FORWARD_PULSE - REVERSE_PULSE\<close>, where the left motor has
  \<open>prevLeft + accRate < FORWARD_PULSE - REVERSE_PULSE\<close>.
\<close>

definition drive_right_ramp :: "int \<Rightarrow> int \<Rightarrow> int \<Rightarrow> int" where
  "drive_right_ramp a prev t =
     (if t > u16 (prev + a)
        then (if t < u16 (FORWARD_PULSE - REVERSE_PULSE) then u16 (prev + a)
              else u16 (FORWARD_PULSE - REVERSE_PULSE))
      else if t < u16 (prev - a)
        then (if s16 (prev - a) > 0 then u16 (prev - a) else 0)
      else t)"

text \<open>
  \<open>leftDriveSpeed = map(nextLeftSpeed, -512, 512, 0, FORWARD_PULSE - REVERSE_PULSE)\<close>,
  stored in a \<open>uint16_t\<close>.
\<close>

definition driveSpeed :: "int \<Rightarrow> int" where
  "driveSpeed nextSpeed =
     u16 (arduino_map nextSpeed (- 512) 512 0 (u16 (FORWARD_PULSE - REVERSE_PULSE)))"

text \<open>
  \<open>drive\<close>, after the resync loop: the rate limiter and the pulse width of each motor.
  The result is the new state and the pair of pulse widths written.
\<close>

definition driveStep :: "Settings \<Rightarrow> DriveState \<Rightarrow> int \<Rightarrow> int \<Rightarrow> DriveState \<times> (int \<times> int)" where
  "driveStep cfg st nextLeftSpeed nextRightSpeed =
     (let leftDriveSpeed =
            drive_left_ramp (accRate cfg) (prevLeft st) (driveSpeed nextLeftSpeed);
          leftMotorPulse = u16 (REVERSE_PULSE + leftDriveSpeed);
          rightDriveSpeed =
            drive_right_ramp (accRate cfg) (prevRight st) (driveSpeed nextRightSpeed);
          rightMotorPulse = u16 (REVERSE_PULSE + rightDriveSpeed)
      in (st\<lparr> prevLeft := s16 leftDriveSpeed, prevRight := s16 rightDriveSpeed \<rparr>,
          (leftMotorPulse, rightMotorPulse)))"

text \<open>
  \<open>drive\<close>: the resync loop when \<open>directionChanged\<close> is set, then one step of the rate
  limiter. The result is the final state and every pulse pair written, in order.
\<close>

definition drive ::
  "Settings \<Rightarrow> DriveState \<Rightarrow> int \<Rightarrow> int \<Rightarrow> (DriveState \<times> (int \<times> int) list) option" where
  "drive cfg st nextLeftSpeed nextRightSpeed =
     Option.bind (if directionChanged st then resetMotorSpeeds cfg st else Some (st, []))
       (\<lambda>(st1, out).
          case driveStep cfg st1 nextLeftSpeed nextRightSpeed of
            (st2, pulses) \<Rightarrow> Some (st2, out @ [pulses]))"

text \<open>
  \<open>setLeftRightMotorSpeeds\<close> from the computed speeds on: the interlock test, then
  \<open>drive(leftMotorSpeed, rightMotorSpeed)\<close>, whose parameters are \<open>int16_t\<close>.
\<close>

definition commitAndDrive ::
  "Settings \<Rightarrow> DriveState \<Rightarrow> int \<times> int \<Rightarrow> (DriveState \<times> (int \<times> int) list) option" where
  "commitAndDrive cfg st speeds =
     drive cfg (commitSpeeds st (fst speeds) (snd speeds)) (s16 (fst speeds)) (s16 (snd speeds))"

definition setLeftRightMotorSpeeds ::
  "Settings \<Rightarrow> Trims \<Rightarrow> DriveState \<Rightarrow> int \<Rightarrow> int \<Rightarrow> (DriveState \<times> (int \<times> int) list) option" where
  "setLeftRightMotorSpeeds cfg t st moveValue rotateValue =
     commitAndDrive cfg st (motorSpeeds t moveValue rotateValue)"

text \<open>
  A run of the control loop over a list of target speed pairs (the values of
  \<open>leftMotorSpeed\<close> and \<open>rightMotorSpeed\<close> of successive calls): the final state and all
  pulse pairs written.
\<close>

fun cycles ::
  "Settings \<Rightarrow> DriveState \<Rightarrow> (int \<times> int) list \<Rightarrow> (DriveState \<times> (int \<times> int) list) option" where
  "cycles cfg st [] = Some (st, [])"
| "cycles cfg st (sp # sps) =
     Option.bind (commitAndDrive cfg st sp)
       (\<lambda>(st1, out1). Option.bind (cycles cfg st1 sps)
          (\<lambda>(st2, out2). Some (st2, out1 @ out2)))"

text \<open>A run over joystick-derived pairs \<open>(moveValue, rotateValue)\<close>.\<close>

definition controlLoop ::
  "Settings \<Rightarrow> Trims \<Rightarrow> DriveState \<Rightarrow> (int \<times> int) list
     \<Rightarrow> (DriveState \<times> (int \<times> int) list) option" where
  "controlLoop cfg t st inputs =
     cycles cfg st (map (\<lambda>(moveValue, rotateValue). motorSpeeds t moveValue rotateValue) inputs)"

section \<open>Predicates used in the statements\<close>

text \<open>Every percentage lies between 0 and 100.\<close>

definition percentsInRange :: "Percents \<Rightarrow> bool" where
  "percentsInRange p \<longleftrightarrow>
     0 \<le> forwardSensPercent p \<and> forwardSensPercent p \<le> 100 \<and>
     0 \<le> reverseSensPercent p \<and> reverseSensPercent p \<le> 100 \<and>
     0 \<le> leftSensPercent p \<and> leftSensPercent p \<le> 100 \<and>
     0 \<le> rightSensPercent p \<and> rightSensPercent p \<le> 100 \<and>
     0 \<le> speedLimitPercent p \<and> speedLimitPercent p \<le> 100 \<and>
     0 \<le> accRatePercent p \<and> accRatePercent p \<le> 100 \<and>
     0 \<le> decRatePercent p \<and> decRatePercent p \<le> 100"

text \<open>Every threshold and rate lies between its \<open>MIN_\<close> and \<open>MAX_\<close> constants.\<close>

definition settingsInRange :: "Settings \<Rightarrow> bool" where
  "settingsInRange s \<longleftrightarrow>
     MIN_FORWARD_THRESH \<le> forwardThresh s \<and> forwardThresh s \<le> MAX_FORWARD_THRESH \<and>
     MIN_REVERSE_THRESH \<le> reverseThresh s \<and> reverseThresh s \<le> MAX_REVERSE_THRESH \<and>
     MIN_LEFT_THRESH \<le> leftThresh s \<and> leftThresh s \<le> MAX_LEFT_THRESH \<and>
     MIN_RIGHT_THRESH \<le> rightThresh s \<and> rightThresh s \<le> MAX_RIGHT_THRESH \<and>
     MIN_SPEED_LIMIT \<le> speedLimit s \<and> speedLimit s \<le> MAX_SPEED_LIMIT \<and>
     MIN_INCREASE_RAMPING \<le> accRate s \<and> accRate s \<le> MAX_INCREASE_RAMPING \<and>
     MIN_DECREASE_RAMPING \<le> decRate s \<and> decRate s \<le> MAX_DECREASE_RAMPING"

text \<open>
  Inputs used in examples: the compiled-in defaults of \<open>setup\<close> (branch without display),
  trims all zero (as the calibration wizard sets them), and all percentages equal.
\<close>

definition defaultSettings :: Settings where
  "defaultSettings =
     \<lparr> forwardThresh = 630, reverseThresh = 340, leftThresh = 400, rightThresh = 600,
       speedLimit = 256, accRate = 15, decRate = 20 \<rparr>"

definition zeroTrims :: Trims where
  "zeroTrims =
     \<lparr> FWD_LEFT_TRIM = 0, REV_LEFT_TRIM = 0, FWD_RIGHT_TRIM = 0, REV_RIGHT_TRIM = 0 \<rparr>"

definition uniformPercents :: "int \<Rightarrow> Percents" where
  "uniformPercents k =
     \<lparr> forwardSensPercent = k, reverseSensPercent = k, leftSensPercent = k,
       rightSensPercent = k, speedLimitPercent = k, accRatePercent = k,
       decRatePercent = k \<rparr>"

text \<open>
  Rates the program can be configured with: \<open>map\<close> yields 1..30, the defaults are 15 and
  20, the calibration wizard sets 50. The predicates ask for less: each rate is at least one
  unit and at most \<open>NEUTRAL_SPEED\<close>; for \<open>ratesConfigured\<close>, both together are at most
  \<open>NEUTRAL_SPEED\<close>.
\<close>

definition ratesInRange :: "Settings \<Rightarrow> bool" where
  "ratesInRange cfg \<longleftrightarrow>
     1 \<le> accRate cfg \<and> accRate cfg \<le> NEUTRAL_SPEED \<and>
     1 \<le> decRate cfg \<and> decRate cfg \<le> NEUTRAL_SPEED"

definition ratesConfigured :: "Settings \<Rightarrow> bool" where
  "ratesConfigured cfg \<longleftrightarrow>
     1 \<le> accRate cfg \<and> 1 \<le> decRate cfg \<and> accRate cfg + decRate cfg \<le> NEUTRAL_SPEED"

text \<open>The speed range of the motor code: 0 to \<open>FORWARD_PULSE - REVERSE_PULSE\<close>.\<close>

definition speedsInRange :: "DriveState \<Rightarrow> bool" where
  "speedsInRange st \<longleftrightarrow>
     0 \<le> prevLeft st \<and> prevLeft st \<le> FORWARD_PULSE - REVERSE_PULSE \<and>
     0 \<le> prevRight st \<and> prevRight st \<le> FORWARD_PULSE - REVERSE_PULSE"

text \<open>A speed within one deceleration step of neutral.\<close>

definition nearNeutral :: "int \<Rightarrow> int \<Rightarrow> bool" where
  "nearNeutral d s \<longleftrightarrow> NEUTRAL_SPEED - d \<le> s \<and> s \<le> NEUTRAL_SPEED + d"

text \<open>The pulse pair that corresponds to the speeds last written.\<close>

definition lastPulses :: "DriveState \<Rightarrow> int \<times> int" where
  "lastPulses st = (REVERSE_PULSE + prevLeft st, REVERSE_PULSE + prevRight st)"

text \<open>
  One motor between two successive cycles of the resync loop: the pulse moves by one
  deceleration step towards neutral, or stays where it is within one step of neutral.
\<close>

definition towardNeutral :: "int \<Rightarrow> int \<Rightarrow> int \<Rightarrow> bool" where
  "towardNeutral d p q \<longleftrightarrow>
     (REVERSE_PULSE + NEUTRAL_SPEED + d < p \<and> q = p - d) \<or>
     (p < REVERSE_PULSE + NEUTRAL_SPEED - d \<and> q = p + d) \<or>
     (REVERSE_PULSE + NEUTRAL_SPEED - d \<le> p \<and> p \<le> REVERSE_PULSE + NEUTRAL_SPEED + d \<and> q = p)"

definition resyncCycle :: "int \<Rightarrow> int \<times> int \<Rightarrow> int \<times> int \<Rightarrow> bool" where
  "resyncCycle d p q \<longleftrightarrow> towardNeutral d (fst p) (fst q) \<and> towardNeutral d (snd p) (snd q)"

text \<open>
  The speed of one motor after one iteration of the resync loop, for speeds in range (shown
  below to be what \<open>resetMotor\<close> computes there).
\<close>

definition resetTarget :: "int \<Rightarrow> int \<Rightarrow> int" where
  "resetTarget d s =
     (if NEUTRAL_SPEED + d < s then s - d else if s < NEUTRAL_SPEED - d then s + d else s)"

text \<open>The distance of both motors from neutral, added up.\<close>

definition neutralDistance :: "DriveState \<Rightarrow> int" where
  "neutralDistance st = \<bar>prevLeft st - NEUTRAL_SPEED\<bar> + \<bar>prevRight st - NEUTRAL_SPEED\<bar>"

text \<open>
  The state after one iteration of the resync loop, for speeds in range (shown below to be
  what \<open>resetIteration\<close> computes there).
\<close>

definition afterIteration :: "Settings \<Rightarrow> DriveState \<Rightarrow> DriveState" where
  "afterIteration cfg st =
     st\<lparr> leftResetComplete := leftResetComplete st \<or> nearNeutral (decRate cfg) (prevLeft st),
         prevLeft := resetTarget (decRate cfg) (prevLeft st),
         rightResetComplete := rightResetComplete st \<or> nearNeutral (decRate cfg) (prevRight st),
         prevRight := resetTarget (decRate cfg) (prevRight st),
         directionChanged := directionChanged st \<and>
            \<not> ((leftResetComplete st \<or> nearNeutral (decRate cfg) (prevLeft st)) \<and>
               (rightResetComplete st \<or> nearNeutral (decRate cfg) (prevRight st))) \<rparr>"

text \<open>A pulse pair within \<open>REVERSE_PULSE\<close> .. \<open>FORWARD_PULSE\<close>.\<close>

definition pulsesInRange :: "int \<times> int \<Rightarrow> bool" where
  "pulsesInRange p \<longleftrightarrow>
     REVERSE_PULSE \<le> fst p \<and> fst p \<le> FORWARD_PULSE \<and>
     REVERSE_PULSE \<le> snd p \<and> snd p \<le> FORWARD_PULSE"

text \<open>
  What the resync loop establishes between the state \<open>st\<close> in which it starts and the
  state \<open>st'\<close> and output \<open>out\<close> with which it ends (used for the lemmas on the loop).
\<close>

definition resyncResult :: "Settings \<Rightarrow> DriveState \<Rightarrow> DriveState \<Rightarrow> (int \<times> int) list \<Rightarrow> bool" where
  "resyncResult cfg st st' out \<longleftrightarrow>
     \<not> directionChanged st' \<and> speedsInRange st' \<and>
     prevLeftMotorSpeed st' = prevLeftMotorSpeed st \<and>
     prevRightMotorSpeed st' = prevRightMotorSpeed st \<and>
     (directionChanged st \<longrightarrow> leftResetComplete st' \<and> rightResetComplete st') \<and>
     (\<not> directionChanged st \<longrightarrow> st' = st \<and> out = []) \<and>
     (directionChanged st \<longrightarrow> (leftResetComplete st \<longrightarrow> nearNeutral (decRate cfg) (prevLeft st))
        \<longrightarrow> nearNeutral (decRate cfg) (prevLeft st')) \<and>
     (directionChanged st \<longrightarrow> (rightResetComplete st \<longrightarrow> nearNeutral (decRate cfg) (prevRight st))
        \<longrightarrow> nearNeutral (decRate cfg) (prevRight st')) \<and>
     successively (resyncCycle (decRate cfg)) (lastPulses st # out) \<and>
     last (lastPulses st # out) = lastPulses st' \<and>
     list_all pulsesInRange out \<and>
     (directionChanged st \<longrightarrow> int (length out) \<le> 1 + neutralDistance st div decRate cfg)"

text \<open>A state in which the interlock has just asked for a resync, at speed 545 on both motors.\<close>

definition resyncStart :: DriveState where
  "resyncStart =
     \<lparr> directionChanged = True, leftResetComplete = False, rightResetComplete = False,
       prevLeftMotorSpeed = 65280, prevRightMotorSpeed = 65280, prevLeft = 545, prevRight = 545 \<rparr>"

text \<open>
  A pair of target speeds as \<open>setLeftRightMotorSpeeds\<close> holds them (\<open>uint16_t\<close>) whose
  values as \<open>int16_t\<close> parameters of \<open>drive\<close> lie in the declared domain -512..512.
\<close>

definition targetInDomain :: "int \<times> int \<Rightarrow> bool" where
  "targetInDomain sp \<longleftrightarrow>
     - 512 \<le> s16 (fst sp) \<and> s16 (fst sp) \<le> 512 \<and>
     - 512 \<le> s16 (snd sp) \<and> s16 (snd sp) \<le> 512"

text \<open>Two pulses of one motor on opposite sides of the neutral pulse.\<close>

definition oppositeSides :: "int \<Rightarrow> int \<Rightarrow> bool" where
  "oppositeSides p q \<longleftrightarrow>
     (p < REVERSE_PULSE + NEUTRAL_SPEED \<and> REVERSE_PULSE + NEUTRAL_SPEED < q) \<or>
     (q < REVERSE_PULSE + NEUTRAL_SPEED \<and> REVERSE_PULSE + NEUTRAL_SPEED < p)"

text \<open>
  Two successive pulses \<open>p\<close>, \<open>q\<close> of one motor: if they are on opposite sides of neutral,
  then \<open>p\<close> is within \<open>d\<close> of the neutral pulse.
\<close>

definition noAbruptFlip :: "int \<Rightarrow> int \<Rightarrow> int \<Rightarrow> bool" where
  "noAbruptFlip d p q \<longleftrightarrow>
     (oppositeSides p q \<longrightarrow> \<bar>p - (REVERSE_PULSE + NEUTRAL_SPEED)\<bar> \<le> d)"

definition noAbruptFlips :: "int \<Rightarrow> int \<times> int \<Rightarrow> int \<times> int \<Rightarrow> bool" where
  "noAbruptFlips d p q \<longleftrightarrow> noAbruptFlip d (fst p) (fst q) \<and> noAbruptFlip d (snd p) (snd q)"

text \<open>
  The claim as the specification words it, on the list of pulses of one motor: between two
  pulses on opposite sides of neutral there is a pulse that is exactly neutral. \<open>side\<close> is
  the side of the last pulse that was not neutral (0 when there is none yet, or since the
  last neutral pulse).
\<close>

fun neutralBetweenFlips :: "int \<Rightarrow> int list \<Rightarrow> bool" where
  "neutralBetweenFlips side [] = True"
| "neutralBetweenFlips side (p # ps) =
     (if p = REVERSE_PULSE + NEUTRAL_SPEED then neutralBetweenFlips 0 ps
      else if side \<noteq> 0 \<and> side \<noteq> sgn (p - (REVERSE_PULSE + NEUTRAL_SPEED)) then False
      else neutralBetweenFlips (sgn (p - (REVERSE_PULSE + NEUTRAL_SPEED))) ps)"

text \<open>
  Invariant of one motor between cycles: a speed \<open>p\<close> further than \<open>d\<close> from neutral lies
  on the side of neutral where the committed target \<open>t\<close> (as a drive speed) is.
\<close>

definition sideInv :: "int \<Rightarrow> int \<Rightarrow> int \<Rightarrow> bool" where
  "sideInv d p t \<longleftrightarrow>
     (NEUTRAL_SPEED + d < p \<longrightarrow> NEUTRAL_SPEED \<le> t) \<and>
     (p < NEUTRAL_SPEED - d \<longrightarrow> t \<le> NEUTRAL_SPEED)"

text \<open>
  Invariant of the state between two calls of \<open>setLeftRightMotorSpeeds\<close>; the part on the
  sides of neutral is kept when the two rates together are at most \<open>NEUTRAL_SPEED\<close>.
\<close>

definition cycleInv :: "Settings \<Rightarrow> DriveState \<Rightarrow> bool" where
  "cycleInv cfg st \<longleftrightarrow>
     speedsInRange st \<and> \<not> directionChanged st \<and>
     targetInDomain (prevLeftMotorSpeed st, prevRightMotorSpeed st) \<and>
     (accRate cfg + decRate cfg \<le> NEUTRAL_SPEED \<longrightarrow>
        sideInv (decRate cfg) (prevLeft st) (driveSpeed (s16 (prevLeftMotorSpeed st))) \<and>
        sideInv (decRate cfg) (prevRight st) (driveSpeed (s16 (prevRightMotorSpeed st))))"

text \<open>
  What one call of \<open>drive\<close> establishes between the state \<open>st\<close> in which it starts and the
  state \<open>st'\<close> and output \<open>out\<close> with which it returns (used for the lemmas on runs).
\<close>

definition driveResult ::
  "Settings \<Rightarrow> DriveState \<Rightarrow> int \<Rightarrow> int \<Rightarrow> DriveState \<Rightarrow> (int \<times> int) list \<Rightarrow> bool" where
  "driveResult cfg st nl nr st' out \<longleftrightarrow>
     speedsInRange st' \<and> \<not> directionChanged st' \<and>
     prevLeftMotorSpeed st' = prevLeftMotorSpeed st \<and>
     prevRightMotorSpeed st' = prevRightMotorSpeed st \<and>
     list_all pulsesInRange out \<and>
     last (lastPulses st # out) = lastPulses st' \<and>
     (accRate cfg + decRate cfg \<le> NEUTRAL_SPEED \<and>
      (directionChanged st \<longrightarrow> \<not> leftResetComplete st \<and> \<not> rightResetComplete st) \<and>
      (\<not> directionChanged st \<longrightarrow>
         sideInv (decRate cfg) (prevLeft st) (driveSpeed nl) \<and>
         sideInv (decRate cfg) (prevRight st) (driveSpeed nr))
      \<longrightarrow> successively (noAbruptFlips (decRate cfg)) (lastPulses st # out) \<and>
          sideInv (decRate cfg) (prevLeft st') (driveSpeed nl) \<and>
          sideInv (decRate cfg) (prevRight st') (driveSpeed nr))"

text \<open>
  Inputs used in examples: targets forward, forward, then reverse at the default speed limit
  (-256 is 65280 as \<open>uint16_t\<close>; 252 is 256 less the default right trim), and a state
  just after a resync from above with \<open>decRate = 20\<close>.
\<close>

definition forwardThenReverse :: "(int \<times> int) list" where
  "forwardThenReverse = [(256, 252), (256, 252), (256, 252), (65280, 65280)]"

definition afterResync :: DriveState where
  "afterResync = coldStart\<lparr> prevLeft := 520, prevRight := 520 \<rparr>"

text \<open>
  One pass from the four joystick samples to the target speeds: \<open>getJoystickInputs\<close>
  followed by the first part of \<open>setLeftRightMotorSpeeds\<close>.
\<close>

definition targetSpeeds :: "Settings \<Rightarrow> Trims \<Rightarrow> int \<Rightarrow> int \<Rightarrow> int \<Rightarrow> int \<Rightarrow> int \<times> int" where
  "targetSpeeds cfg t xa xb ya yb =
     (case getJoystickInputs cfg xa xb ya yb of
        (moveValue, rotateValue) \<Rightarrow> motorSpeeds t moveValue rotateValue)"

text \<open>Every trim lies between 0 and the bound \<open>s\<close>.\<close>

definition trimsWithin :: "int \<Rightarrow> Trims \<Rightarrow> bool" where
  "trimsWithin s t \<longleftrightarrow>
     0 \<le> FWD_LEFT_TRIM t \<and> FWD_LEFT_TRIM t \<le> s \<and>
     0 \<le> REV_LEFT_TRIM t \<and> REV_LEFT_TRIM t \<le> s \<and>
     0 \<le> FWD_RIGHT_TRIM t \<and> FWD_RIGHT_TRIM t \<le> s \<and>
     0 \<le> REV_RIGHT_TRIM t \<and> REV_RIGHT_TRIM t \<le> s"

section \<open>Basic facts\<close>

lemmas limit_defs =
  MIN_FORWARD_THRESH_def MAX_FORWARD_THRESH_def MIN_REVERSE_THRESH_def MAX_REVERSE_THRESH_def
  MIN_LEFT_THRESH_def MAX_LEFT_THRESH_def MIN_RIGHT_THRESH_def MAX_RIGHT_THRESH_def
  MIN_SPEED_LIMIT_def MAX_SPEED_LIMIT_def MIN_INCREASE_RAMPING_def MAX_INCREASE_RAMPING_def
  MIN_DECREASE_RAMPING_def MAX_DECREASE_RAMPING_def

lemmas pulse_defs = REVERSE_PULSE_def FORWARD_PULSE_def NEUTRAL_SPEED_def

lemma u16_id: "0 \<le> x \<Longrightarrow> x < 65536 \<Longrightarrow> u16 x = x"
  by (simp add: u16_def)

lemma u16_neg: "- 65536 \<le> x \<Longrightarrow> x < 0 \<Longrightarrow> u16 x = x + 65536"
proof -
  assume a: "- 65536 \<le> x" "x < 0"
  have "x mod 65536 = (x + 65536) mod 65536" by simp
  also have "\<dots> = x + 65536" using a by (simp only: mod_pos_pos_trivial)
  finally show ?thesis by (simp add: u16_def)
qed

lemma s16_id: "- 32768 \<le> x \<Longrightarrow> x < 32768 \<Longrightarrow> s16 x = x"
  by (simp add: s16_def)

lemma u8_id: "0 \<le> x \<Longrightarrow> x < 256 \<Longrightarrow> u8 x = x"
  by (simp add: u8_def)

lemma cdiv_nonneg: "0 \<le> a \<Longrightarrow> 0 < b \<Longrightarrow> cdiv a b = a div b"
  by (cases "a = 0") (simp_all add: cdiv_def)

lemma cdiv_nonpos: "a \<le> 0 \<Longrightarrow> 0 < b \<Longrightarrow> cdiv a b = - ((- a) div b)"
  by (cases "a = 0") (simp_all add: cdiv_def)

lemma EEPROM_read_range: "0 \<le> EEPROM_read e a \<and> EEPROM_read e a \<le> 255"
  by (simp add: EEPROM_read_def u8_def)

lemma clampPercents_range: "percentsInRange (clampPercents (readPercents e))"
  using EEPROM_read_range [of e]
  by (simp add: percentsInRange_def clampPercents_def readPercents_def)

lemma map_down: "0 \<le> p \<Longrightarrow> p \<le> 100 \<Longrightarrow> arduino_map p 0 100 1000 600 = 1000 - 4 * p"
  by (simp add: arduino_map_def cdiv_nonpos)

lemma map_up_range:
  assumes "0 \<le> p" "p \<le> 100" "0 \<le> k"
  shows "lo \<le> arduino_map p 0 100 lo (lo + k) \<and> arduino_map p 0 100 lo (lo + k) \<le> lo + k"
proof -
  have "0 \<le> p * k" using assms by simp
  then have eq: "arduino_map p 0 100 lo (lo + k) = lo + p * k div 100"
    by (simp add: arduino_map_def cdiv_nonneg)
  have "p * k \<le> 100 * k" using assms by (simp add: mult_right_mono)
  then have "p * k div 100 \<le> 100 * k div 100" by (rule zdiv_mono1) simp
  moreover have "0 \<le> p * k div 100" using \<open>0 \<le> p * k\<close> by (simp add: pos_imp_zdiv_nonneg_iff)
  ultimately show ?thesis using eq by simp
qed

lemma setupSettings_range: 
  assumes "percentsInRange p" shows "settingsInRange (setupSettings p)"
proof -
  note r = assms [unfolded percentsInRange_def]
  have f: "arduino_map (forwardSensPercent p) 0 100 1000 600 = 1000 - 4 * forwardSensPercent p"
    and rt: "arduino_map (rightSensPercent p) 0 100 1000 600 = 1000 - 4 * rightSensPercent p"
    using r by (simp_all add: map_down)
  have rv: "0 \<le> arduino_map (reverseSensPercent p) 0 100 0 400 \<and> arduino_map (reverseSensPercent p) 0 100 0 400 \<le> 400"
    using map_up_range [of "reverseSensPercent p" 400 0] r by simp
  have l: "0 \<le> arduino_map (leftSensPercent p) 0 100 0 400 \<and> arduino_map (leftSensPercent p) 0 100 0 400 \<le> 400"
    using map_up_range [of "leftSensPercent p" 400 0] r by simp
  have s: "72 \<le> arduino_map (speedLimitPercent p) 0 100 72 512 \<and> arduino_map (speedLimitPercent p) 0 100 72 512 \<le> 512"
    using map_up_range [of "speedLimitPercent p" 440 72] r by simp
  have a: "1 \<le> arduino_map (accRatePercent p) 0 100 1 30 \<and> arduino_map (accRatePercent p) 0 100 1 30 \<le> 30"
    using map_up_range [of "accRatePercent p" 29 1] r by simp
  have d: "1 \<le> arduino_map (decRatePercent p) 0 100 1 30 \<and> arduino_map (decRatePercent p) 0 100 1 30 \<le> 30"
    using map_up_range [of "decRatePercent p" 29 1] r by simp
  show ?thesis
    unfolding settingsInRange_def setupSettings_def limit_defs
    using r rv l s a d by (simp add: f rt u16_id s16_id)
qed

lemma clamp_idem: "clampPercents (readPercents (clampedStorage e)) = clampPercents (readPercents e)"
  using EEPROM_read_range [of e]
  by (simp add: clampPercents_def readPercents_def clampedStorage_def EEPROM_read_def [of "\<lambda>a. min (EEPROM_read e a) 100"] u8_def)

lemma map_up_eq:
  assumes "0 \<le> p" "p \<le> 100" "0 \<le> k"
  shows "arduino_map p 0 100 lo (lo + k) = lo + k * p div 100"
proof -
  have "0 \<le> p * k" using assms by simp
  then show ?thesis by (simp add: arduino_map_def cdiv_nonneg mult.commute)
qed

lemma clampPercents_eval:
  "clampPercents (readPercents e) =
     \<lparr> forwardSensPercent = min (e 1 mod 256) 100,
       reverseSensPercent = min (e 2 mod 256) 100,
       leftSensPercent = min (e 3 mod 256) 100,
       rightSensPercent = min (e 4 mod 256) 100,
       speedLimitPercent = min (e 5 mod 256) 100,
       accRatePercent = min (e 6 mod 256) 100,
       decRatePercent = min (e 7 mod 256) 100 \<rparr>"
  by (simp add: clampPercents_def readPercents_def EEPROM_read_def u8_def min_def)

lemma setupSettings_eval:
  assumes "percentsInRange p"
  shows "setupSettings p =
     \<lparr> forwardThresh = 1000 - 4 * forwardSensPercent p,
       reverseThresh = 4 * reverseSensPercent p,
       leftThresh = 4 * leftSensPercent p,
       rightThresh = 1000 - 4 * rightSensPercent p,
       speedLimit = 72 + 440 * speedLimitPercent p div 100,
       accRate = 1 + 29 * accRatePercent p div 100,
       decRate = 1 + 29 * decRatePercent p div 100 \<rparr>"
proof -
  note r = assms [unfolded percentsInRange_def]
  have f: "arduino_map (forwardSensPercent p) 0 100 1000 600 = 1000 - 4 * forwardSensPercent p"
    and rt: "arduino_map (rightSensPercent p) 0 100 1000 600 = 1000 - 4 * rightSensPercent p"
    using r by (simp_all add: map_down)
  have rv: "arduino_map (reverseSensPercent p) 0 100 0 400 = 4 * reverseSensPercent p"
    using map_up_eq [of "reverseSensPercent p" 400 0] r by simp
  have l: "arduino_map (leftSensPercent p) 0 100 0 400 = 4 * leftSensPercent p"
    using map_up_eq [of "leftSensPercent p" 400 0] r by simp
  have s: "arduino_map (speedLimitPercent p) 0 100 72 512 = 72 + 440 * speedLimitPercent p div 100"
    using map_up_eq [of "speedLimitPercent p" 440 72] r by simp
  have a: "arduino_map (accRatePercent p) 0 100 1 30 = 1 + 29 * accRatePercent p div 100"
    using map_up_eq [of "accRatePercent p" 29 1] r by simp
  have d: "arduino_map (decRatePercent p) 0 100 1 30 = 1 + 29 * decRatePercent p div 100"
    using map_up_eq [of "decRatePercent p" 29 1] r by simp
  have sr: "72 \<le> arduino_map (speedLimitPercent p) 0 100 72 512 \<and> arduino_map (speedLimitPercent p) 0 100 72 512 \<le> 512"
    using map_up_range [of "speedLimitPercent p" 440 72] r by simp
  have ar: "1 \<le> arduino_map (accRatePercent p) 0 100 1 30 \<and> arduino_map (accRatePercent p) 0 100 1 30 \<le> 30"
    using map_up_range [of "accRatePercent p" 29 1] r by simp
  have dr: "1 \<le> arduino_map (decRatePercent p) 0 100 1 30 \<and> arduino_map (decRatePercent p) 0 100 1 30 \<le> 30"
    using map_up_range [of "decRatePercent p" 29 1] r by simp
  have us: "u16 (arduino_map (speedLimitPercent p) 0 100 72 512) = 72 + 440 * speedLimitPercent p div 100"
    using sr s by (simp add: u16_id)
  have ua: "s16 (arduino_map (accRatePercent p) 0 100 1 30) = 1 + 29 * accRatePercent p div 100"
    using ar a by (simp add: s16_id)
  have ud: "s16 (arduino_map (decRatePercent p) 0 100 1 30) = 1 + 29 * decRatePercent p div 100"
    using dr d by (simp add: s16_id)
  show ?thesis
    unfolding setupSettings_def limit_defs us ua ud f rt rv l
    using r by (simp add: u16_id)
qed

section \<open>Configuration storage\<close>

text \<open>
  C9. Whatever the EEPROM holds, \<open>setup\<close> replaces each of the seven bytes read by the
  smaller of the byte and 100 (a byte up to 100 is kept, a larger one, such as the 255 of
  an address never written, becomes 100) before it converts them, and every threshold and
  rate is the value that \<open>map\<close> gives for that clamped percentage: 1000 less four times the
  percentage for the forward and right thresholds, four times the percentage for the reverse
  and left thresholds, 72 plus 440 hundredths of it for the speed limit, 1 plus 29
  hundredths of it for the two rates, each rounded down. So every percentage lies in 0..100,
  every threshold and rate within its declared limits, and the outcome is the one obtained
  from the storage in which each value above 100 is replaced by 100. A storage of 255
  throughout gives 100 percent and the settings of 100 percent; a storage of 50 throughout
  keeps 50 percent. (The New_Board sketch reads and clamps the seven bytes in the same way
  and derives nothing from them.)
\<close>

theorem setup_clamps:
  "fst (setup_LCD e) =
     \<lparr> forwardSensPercent = min (e 1 mod 256) 100,
       reverseSensPercent = min (e 2 mod 256) 100,
       leftSensPercent = min (e 3 mod 256) 100,
       rightSensPercent = min (e 4 mod 256) 100,
       speedLimitPercent = min (e 5 mod 256) 100,
       accRatePercent = min (e 6 mod 256) 100,
       decRatePercent = min (e 7 mod 256) 100 \<rparr> \<and>
   snd (setup_LCD e) =
     \<lparr> forwardThresh = 1000 - 4 * min (e 1 mod 256) 100,
       reverseThresh = 4 * min (e 2 mod 256) 100,
       leftThresh = 4 * min (e 3 mod 256) 100,
       rightThresh = 1000 - 4 * min (e 4 mod 256) 100,
       speedLimit = 72 + 440 * min (e 5 mod 256) 100 div 100,
       accRate = 1 + 29 * min (e 6 mod 256) 100 div 100,
       decRate = 1 + 29 * min (e 7 mod 256) 100 div 100 \<rparr> \<and>
   percentsInRange (fst (setup_LCD e)) \<and> settingsInRange (snd (setup_LCD e)) \<and>
   setup_LCD e = setup_LCD (clampedStorage e) \<and>
   setup_LCD unwrittenStorage =
     (uniformPercents 100,
      \<lparr> forwardThresh = 600, reverseThresh = 400, leftThresh = 400, rightThresh = 600,
        speedLimit = 512, accRate = 30, decRate = 30 \<rparr>) \<and>
   setup_LCD (uniformStorage 50) =
     (uniformPercents 50,
      \<lparr> forwardThresh = 800, reverseThresh = 200, leftThresh = 200, rightThresh = 800,
        speedLimit = 292, accRate = 15, decRate = 15 \<rparr>)"
proof -
  have p: "fst (setup_LCD e) = clampPercents (readPercents e)"
    and q: "snd (setup_LCD e) = setupSettings (clampPercents (readPercents e))"
    by (simp_all add: setup_LCD_def Let_def)
  have s: "setupSettings (clampPercents (readPercents e)) =
     \<lparr> forwardThresh = 1000 - 4 * min (e 1 mod 256) 100,
       reverseThresh = 4 * min (e 2 mod 256) 100,
       leftThresh = 4 * min (e 3 mod 256) 100,
       rightThresh = 1000 - 4 * min (e 4 mod 256) 100,
       speedLimit = 72 + 440 * min (e 5 mod 256) 100 div 100,
       accRate = 1 + 29 * min (e 6 mod 256) 100 div 100,
       decRate = 1 + 29 * min (e 7 mod 256) 100 div 100 \<rparr>"
    by (simp only: setupSettings_eval [OF clampPercents_range])
       (simp add: clampPercents_eval)
  have u: "setup_LCD unwrittenStorage =
     (uniformPercents 100,
      \<lparr> forwardThresh = 600, reverseThresh = 400, leftThresh = 400, rightThresh = 600,
        speedLimit = 512, accRate = 30, decRate = 30 \<rparr>)"
    by code_simp
  have h: "setup_LCD (uniformStorage 50) =
     (uniformPercents 50,
      \<lparr> forwardThresh = 800, reverseThresh = 200, leftThresh = 200, rightThresh = 800,
        speedLimit = 292, accRate = 15, decRate = 15 \<rparr>)"
    by code_simp
  have r: "percentsInRange (fst (setup_LCD e))" "settingsInRange (snd (setup_LCD e))"
    "setup_LCD e = setup_LCD (clampedStorage e)"
    by (simp_all add: setup_LCD_def Let_def clampPercents_range setupSettings_range clamp_idem)
  from p q s u h r show ?thesis by (simp only: clampPercents_eval simp_thms)
qed

text \<open>
  C10 (the code departs from it). At 0 percent the conversion of \<open>setup\<close> gives a forward
  and a right threshold of 1000, the conversion run by the "Save Values" button gives 600 for
  the same percentage; the reverse and left thresholds agree on both paths.
\<close>

theorem save_inverts_forward_right:
  "forwardThresh (setupSettings (uniformPercents 0)) = 1000 \<and>
   forwardThresh (saveSettings (uniformPercents 0)) = 600 \<and>
   rightThresh (setupSettings (uniformPercents 0)) = 1000 \<and>
   rightThresh (saveSettings (uniformPercents 0)) = 600 \<and>
   reverseThresh (setupSettings (uniformPercents 0)) = reverseThresh (saveSettings (uniformPercents 0)) \<and>
   leftThresh (setupSettings (uniformPercents 0)) = leftThresh (saveSettings (uniformPercents 0))"
  by (simp add: setupSettings_def saveSettings_def uniformPercents_def arduino_map_def cdiv_def
      u16_def limit_defs)

section \<open>Target speeds and interlock\<close>

text \<open>
  C7. When \<open>moveValue\<close> is not zero, any two values of \<open>rotateValue\<close> give the same
  motor speeds and the same outcome of \<open>setLeftRightMotorSpeeds\<close>, in the current program
  and in the New_Board sketch. In general the speeds are those of \<open>moveValue\<close> alone when it
  is not zero and those of \<open>rotateValue\<close> alone when it is: one axis contributes.
\<close>

theorem rotate_ignored_when_moving:
  assumes "moveValue \<noteq> 0"
  shows "motorSpeeds t moveValue r1 = motorSpeeds t moveValue r2 \<and>
         setLeftRightMotorSpeeds cfg t st moveValue r1 = setLeftRightMotorSpeeds cfg t st moveValue r2 \<and>
         motorSpeeds_New_Board moveValue r1 = motorSpeeds_New_Board moveValue r2 \<and>
         motorSpeeds t m r = (if m \<noteq> 0 then motorSpeeds t m 0 else motorSpeeds t 0 r) \<and>
         motorSpeeds_New_Board m r =
           (if m \<noteq> 0 then motorSpeeds_New_Board m 0 else motorSpeeds_New_Board 0 r)"
  using assms
  by (simp add: motorSpeeds_def setLeftRightMotorSpeeds_def motorSpeeds_New_Board_def)

theorem rotate_ignored_when_moving_witness:
  "(256::int) \<noteq> 0 \<and>
   motorSpeeds defaultTrims 256 0 = motorSpeeds defaultTrims 256 170 \<and>
   motorSpeeds defaultTrims 256 170 = (256, 252) \<and>
   setLeftRightMotorSpeeds defaultSettings defaultTrims coldStart 256 0 =
     setLeftRightMotorSpeeds defaultSettings defaultTrims coldStart 256 170 \<and>
   motorSpeeds_New_Board 256 0 = motorSpeeds_New_Board 256 170"
  using rotate_ignored_when_moving [of 256 defaultTrims 0 170 defaultSettings coldStart 0 0]
  by (simp add: motorSpeeds_def defaultTrims_def u16_def)

text \<open>
  C3. In a cycle that starts with \<open>directionChanged\<close> clear, the interlock test sets the flag
  exactly when the new left or right speed differs from the committed one, whatever the
  difference is; when it sets the flag it clears both reset-complete flags, otherwise the
  state is unchanged; the new speeds are committed in both cases. (The test reads the same
  in the New_Board sketch.)
\<close>

theorem interlock_trigger:
  assumes "\<not> directionChanged st"
  shows "(directionChanged (commitSpeeds st l r) \<longleftrightarrow>
            (l \<noteq> prevLeftMotorSpeed st \<or> r \<noteq> prevRightMotorSpeed st)) \<and>
         (directionChanged (commitSpeeds st l r) \<longrightarrow>
            \<not> leftResetComplete (commitSpeeds st l r) \<and> \<not> rightResetComplete (commitSpeeds st l r)) \<and>
         (\<not> directionChanged (commitSpeeds st l r) \<longrightarrow> commitSpeeds st l r = st) \<and>
         prevLeftMotorSpeed (commitSpeeds st l r) = l \<and>
         prevRightMotorSpeed (commitSpeeds st l r) = r"
  using assms by (auto simp add: commitSpeeds_def Let_def)

theorem interlock_trigger_witness:
  "\<not> directionChanged coldStart \<and>
   directionChanged (commitSpeeds coldStart 256 252) \<and>
   \<not> leftResetComplete (commitSpeeds coldStart 256 252) \<and>
   \<not> rightResetComplete (commitSpeeds coldStart 256 252) \<and>
   commitSpeeds coldStart 0 0 = coldStart"
  using interlock_trigger [of coldStart 256 252] interlock_trigger [of coldStart 0 0]
  by (simp add: coldStart_def)

section \<open>Rate limiter\<close>

text \<open>
  C2 (the code departs from it). From the cold-start state, with \<open>accRate = 15\<close>, a
  full-scale target of 512 moves the left motor from 500 to 515 and the right motor from 500
  to 1000 in one cycle of \<open>drive\<close>. The same happens in a whole cycle with the settings of an
  unwritten EEPROM (\<open>speedLimit = 512\<close>, \<open>accRate = 30\<close>), zero trims and the joystick
  pushed forward: the right pulse goes from 1500 to 2000.
\<close>

theorem right_motor_full_scale_jump:
  "drive defaultSettings coldStart 512 512 =
     Some (coldStart\<lparr> prevLeft := 515, prevRight := 1000 \<rparr>, [(1515, 2000)]) \<and>
   accRate defaultSettings = 15 \<and> prevRight coldStart = 500 \<and>
   getJoystickInputs (snd (setup_LCD unwrittenStorage)) 512 512 700 700 = (512, - 1) \<and>
   accRate (snd (setup_LCD unwrittenStorage)) = 30 \<and>
   map_option snd
     (setLeftRightMotorSpeeds (snd (setup_LCD unwrittenStorage)) zeroTrims coldStart 512 (- 1)) =
     Some [(1500, 1500), (1530, 2000)]"
  by code_simp

section \<open>Resync loop\<close>

lemma resetMotor_eval:
  assumes "1 \<le> d" "d \<le> 500" "0 \<le> rs" "rs \<le> 1000"
  shows "resetMotor d rs rs c = (resetTarget d rs, c \<or> nearNeutral d rs)"
  using assms by (auto simp add: resetMotor_def resetTarget_def nearNeutral_def NEUTRAL_SPEED_def u16_id)

lemma resetTarget_range:
  "1 \<le> d \<Longrightarrow> d \<le> 500 \<Longrightarrow> 0 \<le> s \<Longrightarrow> s \<le> 1000 \<Longrightarrow> 0 \<le> resetTarget d s \<and> resetTarget d s \<le> 1000"
  by (simp add: resetTarget_def NEUTRAL_SPEED_def)

lemma resetTarget_toward:
  "1 \<le> d \<Longrightarrow> towardNeutral d (REVERSE_PULSE + s) (REVERSE_PULSE + resetTarget d s)"
  by (simp add: resetTarget_def towardNeutral_def pulse_defs)

lemma resetTarget_near:
  "nearNeutral d s \<Longrightarrow> resetTarget d s = s"
  by (simp add: resetTarget_def nearNeutral_def)

lemma resetTarget_dist:
  "1 \<le> d \<Longrightarrow> \<not> nearNeutral d s \<Longrightarrow> \<bar>resetTarget d s - NEUTRAL_SPEED\<bar> = \<bar>s - NEUTRAL_SPEED\<bar> - d"
  by (auto simp add: resetTarget_def nearNeutral_def)

lemma resetTarget_dist_le:
  "1 \<le> d \<Longrightarrow> \<bar>resetTarget d s - NEUTRAL_SPEED\<bar> \<le> \<bar>s - NEUTRAL_SPEED\<bar>"
  by (auto simp add: resetTarget_def)

lemma resetIteration_eval:
  assumes d: "1 \<le> decRate cfg" "decRate cfg \<le> 500"
    and inv: "speedsInRange st"
  shows "resetIteration cfg st (prevLeft st) (prevRight st) =
     ((afterIteration cfg st, prevLeft (afterIteration cfg st), prevRight (afterIteration cfg st)),
      lastPulses (afterIteration cfg st))"
proof -
  from inv have r: "0 \<le> prevLeft st" "prevLeft st \<le> 1000" "0 \<le> prevRight st" "prevRight st \<le> 1000"
    by (simp_all add: speedsInRange_def pulse_defs)
  have tl: "0 \<le> resetTarget (decRate cfg) (prevLeft st)" "resetTarget (decRate cfg) (prevLeft st) \<le> 1000"
    using resetTarget_range [OF d r(1,2)] by simp_all
  have tr: "0 \<le> resetTarget (decRate cfg) (prevRight st)" "resetTarget (decRate cfg) (prevRight st) \<le> 1000"
    using resetTarget_range [OF d r(3,4)] by simp_all
  show ?thesis
    unfolding resetIteration_def resetMotor_eval [OF d r(1,2)] resetMotor_eval [OF d r(3,4)]
    using tl tr
    by (auto simp add: Let_def afterIteration_def lastPulses_def REVERSE_PULSE_def u16_id s16_id)
qed

lemma afterIteration_range:
  assumes d: "1 \<le> decRate cfg" "decRate cfg \<le> 500" and inv: "speedsInRange st"
  shows "speedsInRange (afterIteration cfg st)"
  using inv resetTarget_range [OF d, of "prevLeft st"] resetTarget_range [OF d, of "prevRight st"]
  by (simp add: speedsInRange_def afterIteration_def pulse_defs)

lemma afterIteration_cycle:
  "1 \<le> decRate cfg \<Longrightarrow> resyncCycle (decRate cfg) (lastPulses st) (lastPulses (afterIteration cfg st))"
  by (simp add: resyncCycle_def lastPulses_def afterIteration_def resetTarget_toward)

lemma afterIteration_progress:
  assumes d: "1 \<le> decRate cfg" and c: "directionChanged (afterIteration cfg st)"
  shows "neutralDistance (afterIteration cfg st) \<le> neutralDistance st - decRate cfg"
proof -
  from c have "\<not> nearNeutral (decRate cfg) (prevLeft st) \<or> \<not> nearNeutral (decRate cfg) (prevRight st)"
    by (auto simp add: afterIteration_def)
  then show ?thesis
    using resetTarget_dist [OF d, of "prevLeft st"] resetTarget_dist [OF d, of "prevRight st"]
      resetTarget_dist_le [OF d, of "prevLeft st"] resetTarget_dist_le [OF d, of "prevRight st"]
    by (auto simp add: neutralDistance_def afterIteration_def)
qed

lemma speedsInRange_pulses: "speedsInRange st \<Longrightarrow> pulsesInRange (lastPulses st)"
  by (simp add: speedsInRange_def pulsesInRange_def lastPulses_def pulse_defs)

lemma resetLoop_total:
  assumes d: "1 \<le> decRate cfg" "decRate cfg \<le> 500"
  shows "speedsInRange st \<Longrightarrow>
     \<exists>st' out. resetLoop cfg st (prevLeft st) (prevRight st) = Some (st', out) \<and>
        resyncResult cfg st st' out"
proof (induction "nat (neutralDistance st)" arbitrary: st rule: less_induct)
  case less
  note inv = \<open>speedsInRange st\<close>
  show ?case
  proof (cases "directionChanged st")
    case False
    then have "resetLoop cfg st (prevLeft st) (prevRight st) = Some (st, [])"
      by (subst resetLoop.simps) simp
    moreover have "resyncResult cfg st st []"
      using False inv by (simp add: resyncResult_def)
    ultimately show ?thesis by blast
  next
    case True
    let ?st1 = "afterIteration cfg st"
    have it: "resetIteration cfg st (prevLeft st) (prevRight st) =
        ((?st1, prevLeft ?st1, prevRight ?st1), lastPulses ?st1)"
      by (rule resetIteration_eval [OF d inv])
    have inv1: "speedsInRange ?st1" by (rule afterIteration_range [OF d inv])
    then have pr: "pulsesInRange (lastPulses ?st1)" by (rule speedsInRange_pulses)
    have cyc: "resyncCycle (decRate cfg) (lastPulses st) (lastPulses ?st1)"
      by (rule afterIteration_cycle [OF d(1)])
    have same: "prevLeftMotorSpeed ?st1 = prevLeftMotorSpeed st"
      "prevRightMotorSpeed ?st1 = prevRightMotorSpeed st"
      by (simp_all add: afterIteration_def)
    have nl: "leftResetComplete ?st1 \<Longrightarrow> leftResetComplete st \<longrightarrow> nearNeutral (decRate cfg) (prevLeft st)
        \<Longrightarrow> nearNeutral (decRate cfg) (prevLeft ?st1)" 
      using resetTarget_near [of "decRate cfg" "prevLeft st"] by (auto simp add: afterIteration_def)
    have nr: "rightResetComplete ?st1 \<Longrightarrow> rightResetComplete st \<longrightarrow> nearNeutral (decRate cfg) (prevRight st)
        \<Longrightarrow> nearNeutral (decRate cfg) (prevRight ?st1)" 
      using resetTarget_near [of "decRate cfg" "prevRight st"] by (auto simp add: afterIteration_def)
    have dist0: "0 \<le> neutralDistance st" by (simp add: neutralDistance_def)
    show ?thesis
    proof (cases "directionChanged ?st1")
      case False
      then have flags: "leftResetComplete ?st1" "rightResetComplete ?st1"
        using True by (auto simp add: afterIteration_def)
      from False have "resetLoop cfg ?st1 (prevLeft ?st1) (prevRight ?st1) = Some (?st1, [])"
        by (subst resetLoop.simps) simp
      then have run: "resetLoop cfg st (prevLeft st) (prevRight st) = Some (?st1, [lastPulses ?st1])"
        using True it by (subst resetLoop.simps) simp
      have "0 \<le> neutralDistance st div decRate cfg"
        using dist0 d by (simp add: pos_imp_zdiv_nonneg_iff)
      then have "resyncResult cfg st ?st1 [lastPulses ?st1]"
        unfolding resyncResult_def
        using False inv1 same flags nl nr cyc True pr by simp
      with run show ?thesis by blast
    next
      case c1: True
      have prog: "neutralDistance ?st1 \<le> neutralDistance st - decRate cfg"
        by (rule afterIteration_progress [OF d(1) c1])
      have dist1: "0 \<le> neutralDistance ?st1" by (simp add: neutralDistance_def)
      from prog d dist1 have "nat (neutralDistance ?st1) < nat (neutralDistance st)" by simp
      from less.hyps [OF this inv1] obtain st' out
        where rec: "resetLoop cfg ?st1 (prevLeft ?st1) (prevRight ?st1) = Some (st', out)"
          and res: "resyncResult cfg ?st1 st' out" by blast
      have run: "resetLoop cfg st (prevLeft st) (prevRight st) = Some (st', lastPulses ?st1 # out)"
        using True it rec by (subst resetLoop.simps) simp
      have "neutralDistance ?st1 div decRate cfg \<le> (neutralDistance st - decRate cfg) div decRate cfg"
        using prog d by (simp add: zdiv_mono1)
      also have "\<dots> = neutralDistance st div decRate cfg - 1"
        using d div_add_self2 [of "decRate cfg" "neutralDistance st - decRate cfg"] by simp
      finally have len: "1 + neutralDistance ?st1 div decRate cfg \<le> neutralDistance st div decRate cfg" 
        by simp
      have "resyncResult cfg st st' (lastPulses ?st1 # out)"
        using res c1 True same nl nr cyc len pr
        unfolding resyncResult_def by auto
      with run show ?thesis by blast
    qed
  qed
qed

text \<open>
  C4. With a deceleration rate of at least one unit (and at most \<open>NEUTRAL_SPEED\<close>, which
  covers every rate the program can be configured with: beyond it \<open>NEUTRAL_SPEED - decRate\<close>
  wraps around as an unsigned value) and both previous speeds within 0..1000,
  \<open>resetMotorSpeeds\<close> returns. On exit \<open>directionChanged\<close> is clear; if the loop was
  entered, both reset-complete flags are set, and when it was entered with both flags clear
  (as the interlock leaves them) both motors are within one deceleration step of neutral.
  From one iteration to the next each pulse moves by exactly one deceleration step towards
  neutral, or stays where it is once within one step; the number of iterations is at most
  one more than the summed distance to neutral divided by the rate.
\<close>

theorem resetMotorSpeeds_terminates:
  assumes d: "1 \<le> decRate cfg" "decRate cfg \<le> NEUTRAL_SPEED"
    and inv: "speedsInRange st"
  shows "\<exists>st' out. resetMotorSpeeds cfg st = Some (st', out) \<and>
           \<not> directionChanged st' \<and>
           (directionChanged st \<longrightarrow> leftResetComplete st' \<and> rightResetComplete st') \<and>
           (directionChanged st \<and> \<not> leftResetComplete st \<and> \<not> rightResetComplete st \<longrightarrow>
              nearNeutral (decRate cfg) (prevLeft st') \<and> nearNeutral (decRate cfg) (prevRight st')) \<and>
           successively (resyncCycle (decRate cfg)) (lastPulses st # out) \<and>
           (directionChanged st \<longrightarrow> int (length out) \<le> 1 + neutralDistance st div decRate cfg)"
proof -
  from d have d': "1 \<le> decRate cfg" "decRate cfg \<le> 500" by (simp_all add: NEUTRAL_SPEED_def)
  from inv have "u16 (prevLeft st) = prevLeft st" "u16 (prevRight st) = prevRight st"
    by (simp_all add: speedsInRange_def pulse_defs u16_id)
  then have eq: "resetMotorSpeeds cfg st = resetLoop cfg st (prevLeft st) (prevRight st)"
    by (simp add: resetMotorSpeeds_def)
  from resetLoop_total [OF d' inv] obtain st' out
    where run: "resetLoop cfg st (prevLeft st) (prevRight st) = Some (st', out)"
      and res: "resyncResult cfg st st' out" by blast
  from res have "\<not> directionChanged st'"
    and "directionChanged st \<longrightarrow> leftResetComplete st' \<and> rightResetComplete st'"
    and "directionChanged st \<and> \<not> leftResetComplete st \<and> \<not> rightResetComplete st \<longrightarrow>
              nearNeutral (decRate cfg) (prevLeft st') \<and> nearNeutral (decRate cfg) (prevRight st')"
    and "successively (resyncCycle (decRate cfg)) (lastPulses st # out)"
    and "directionChanged st \<longrightarrow> int (length out) \<le> 1 + neutralDistance st div decRate cfg"
    by (simp_all add: resyncResult_def)
  with run eq show ?thesis by auto
qed

theorem resetMotorSpeeds_terminates_witness:
  "1 \<le> decRate defaultSettings \<and> decRate defaultSettings \<le> NEUTRAL_SPEED \<and>
   speedsInRange resyncStart \<and> directionChanged resyncStart \<and>
   \<not> leftResetComplete resyncStart \<and> \<not> rightResetComplete resyncStart \<and>
   (\<exists>st' out. resetMotorSpeeds defaultSettings resyncStart = Some (st', out) \<and>
      \<not> directionChanged st' \<and> leftResetComplete st' \<and> rightResetComplete st' \<and>
      nearNeutral (decRate defaultSettings) (prevLeft st') \<and>
      nearNeutral (decRate defaultSettings) (prevRight st') \<and>
      int (length out) \<le> 1 + neutralDistance resyncStart div decRate defaultSettings) \<and>
   map_option snd (resetMotorSpeeds defaultSettings resyncStart) =
     Some [(1525, 1525), (1505, 1505), (1505, 1505)]"
proof -
  have h: "1 \<le> decRate defaultSettings" "decRate defaultSettings \<le> NEUTRAL_SPEED"
    "speedsInRange resyncStart"
    by (simp_all add: defaultSettings_def resyncStart_def speedsInRange_def pulse_defs)
  have f: "directionChanged resyncStart" "\<not> leftResetComplete resyncStart"
    "\<not> rightResetComplete resyncStart"
    by (simp_all add: resyncStart_def)
  have e: "map_option snd (resetMotorSpeeds defaultSettings resyncStart) =
     Some [(1525, 1525), (1505, 1505), (1505, 1505)]"
    by code_simp
  from resetMotorSpeeds_terminates [OF h] f h e show ?thesis by blast
qed

section \<open>Rate limiter of drive\<close>

lemma driveSpeed_eval:
  assumes "- 512 \<le> n" "n \<le> 512"
  shows "driveSpeed n = (n + 512) * 1000 div 1024"
proof -
  have nn: "0 \<le> (n + 512) * 1000" using assms by simp
  have "(n + 512) * 1000 div 1024 \<le> 1024 * 1000 div 1024" using assms by (intro zdiv_mono1) simp_all
  moreover have "0 \<le> (n + 512) * 1000 div 1024" using nn by (simp add: pos_imp_zdiv_nonneg_iff)
  ultimately show ?thesis using nn
    by (simp add: driveSpeed_def arduino_map_def pulse_defs u16_id cdiv_nonneg)
qed

lemma driveSpeed_range:
  assumes "- 512 \<le> n" "n \<le> 512"
  shows "0 \<le> driveSpeed n \<and> driveSpeed n \<le> 1000"
proof -
  have nn: "0 \<le> (n + 512) * 1000" using assms by simp
  have "(n + 512) * 1000 div 1024 \<le> 1024 * 1000 div 1024" using assms by (intro zdiv_mono1) simp_all
  moreover have "0 \<le> (n + 512) * 1000 div 1024" using nn by (simp add: pos_imp_zdiv_nonneg_iff)
  ultimately show ?thesis by (simp add: driveSpeed_eval [OF assms])
qed

lemma drive_left_ramp_eval:
  assumes "1 \<le> a" "a \<le> 500" "0 \<le> p" "p \<le> 1000" "0 \<le> t" "t \<le> 1000"
  shows "drive_left_ramp a p t =
           (if p + a < t then p + a else if p < a then 0 else if t < p - a then p - a else t)"
  using assms
  by (auto simp add: drive_left_ramp_def pulse_defs u16_id u16_neg s16_id)

lemma drive_right_ramp_eval:
  assumes "1 \<le> a" "a \<le> 500" "0 \<le> p" "p \<le> 1000" "0 \<le> t" "t \<le> 1000"
  shows "drive_right_ramp a p t =
           (if p + a < t then (if t < 1000 then p + a else 1000)
            else if p < a then 0 else if t < p - a then p - a else t)"
  using assms
  by (auto simp add: drive_right_ramp_def pulse_defs u16_id u16_neg s16_id)

lemma left_ramp_range:
  assumes "1 \<le> a" "a \<le> 500" "0 \<le> p" "p \<le> 1000" "0 \<le> t" "t \<le> 1000"
  shows "0 \<le> drive_left_ramp a p t \<and> drive_left_ramp a p t \<le> 1000 \<and>
         \<bar>drive_left_ramp a p t - p\<bar> \<le> a"
  by (simp add: drive_left_ramp_eval [OF assms]) (use assms in linarith)

lemma right_ramp_range:
  assumes "1 \<le> a" "a \<le> 500" "0 \<le> p" "p \<le> 1000" "0 \<le> t" "t \<le> 1000"
  shows "0 \<le> drive_right_ramp a p t \<and> drive_right_ramp a p t \<le> 1000 \<and>
         (t < 1000 \<longrightarrow> \<bar>drive_right_ramp a p t - p\<bar> \<le> a)"
  by (simp add: drive_right_ramp_eval [OF assms]) (use assms in linarith)

lemma left_ramp_side:
  assumes a: "1 \<le> a" "a \<le> 500" "0 \<le> p" "p \<le> 1000" "0 \<le> t" "t \<le> 1000"
    and d: "1 \<le> d" "a + d \<le> 500" and s: "sideInv d p t"
  shows "noAbruptFlip d (REVERSE_PULSE + p) (REVERSE_PULSE + drive_left_ramp a p t) \<and>
         sideInv d (drive_left_ramp a p t) t"
  using a d s unfolding drive_left_ramp_eval [OF a] noAbruptFlip_def sideInv_def oppositeSides_def pulse_defs
  by (auto split: if_splits)

lemma right_ramp_side:
  assumes a: "1 \<le> a" "a \<le> 500" "0 \<le> p" "p \<le> 1000" "0 \<le> t" "t \<le> 1000"
    and d: "1 \<le> d" "a + d \<le> 500" and s: "sideInv d p t"
  shows "noAbruptFlip d (REVERSE_PULSE + p) (REVERSE_PULSE + drive_right_ramp a p t) \<and>
         sideInv d (drive_right_ramp a p t) t"
  using a d s unfolding drive_right_ramp_eval [OF a] noAbruptFlip_def sideInv_def oppositeSides_def pulse_defs
  by (auto split: if_splits)

lemma ratesInRange_bounds:
  assumes "ratesInRange cfg"
  shows "1 \<le> accRate cfg" "accRate cfg \<le> 500" "1 \<le> decRate cfg" "decRate cfg \<le> 500"
  using assms by (simp_all add: ratesInRange_def NEUTRAL_SPEED_def)

lemma ratesConfigured_inRange: "ratesConfigured cfg \<Longrightarrow> ratesInRange cfg"
  by (simp add: ratesConfigured_def ratesInRange_def)

lemma speedsInRange_bounds:
  assumes "speedsInRange st"
  shows "0 \<le> prevLeft st" "prevLeft st \<le> 1000" "0 \<le> prevRight st" "prevRight st \<le> 1000"
  using assms by (simp_all add: speedsInRange_def pulse_defs)

lemma driveStep_eval:
  assumes rc: "ratesInRange cfg" and inv: "speedsInRange st"
    and dom: "- 512 \<le> nl" "nl \<le> 512" "- 512 \<le> nr" "nr \<le> 512"
  shows "driveStep cfg st nl nr =
     (st\<lparr> prevLeft := drive_left_ramp (accRate cfg) (prevLeft st) (driveSpeed nl),
          prevRight := drive_right_ramp (accRate cfg) (prevRight st) (driveSpeed nr) \<rparr>,
      (REVERSE_PULSE + drive_left_ramp (accRate cfg) (prevLeft st) (driveSpeed nl),
       REVERSE_PULSE + drive_right_ramp (accRate cfg) (prevRight st) (driveSpeed nr)))"
proof -
  note a = ratesInRange_bounds(1,2) [OF rc]
  note p = speedsInRange_bounds [OF inv]
  have tl: "0 \<le> driveSpeed nl" "driveSpeed nl \<le> 1000"
    using driveSpeed_range [OF dom(1,2)] by simp_all
  have tr: "0 \<le> driveSpeed nr" "driveSpeed nr \<le> 1000"
    using driveSpeed_range [OF dom(3,4)] by simp_all
  have l: "0 \<le> drive_left_ramp (accRate cfg) (prevLeft st) (driveSpeed nl)"
    "drive_left_ramp (accRate cfg) (prevLeft st) (driveSpeed nl) \<le> 1000"
    using left_ramp_range [OF a p(1,2) tl] by simp_all
  have r: "0 \<le> drive_right_ramp (accRate cfg) (prevRight st) (driveSpeed nr)"
    "drive_right_ramp (accRate cfg) (prevRight st) (driveSpeed nr) \<le> 1000"
    using right_ramp_range [OF a p(3,4) tr] by simp_all
  show ?thesis
    using l r by (simp add: driveStep_def Let_def REVERSE_PULSE_def u16_id s16_id)
qed

lemma resyncCycle_noflip:
  assumes "1 \<le> d" "resyncCycle d p q" shows "noAbruptFlips d p q"
  using assms
  by (auto simp add: resyncCycle_def noAbruptFlips_def noAbruptFlip_def towardNeutral_def
      oppositeSides_def)

lemma nearNeutral_sideInv: "nearNeutral d p \<Longrightarrow> sideInv d p t"
  by (simp add: nearNeutral_def sideInv_def)

lemma driveStep_result:
  assumes rc: "ratesInRange cfg" and inv: "speedsInRange st"
    and dom: "- 512 \<le> nl" "nl \<le> 512" "- 512 \<le> nr" "nr \<le> 512"
    and nd: "\<not> directionChanged st"
  shows "\<exists>st' p. driveStep cfg st nl nr = (st', p) \<and> driveResult cfg st nl nr st' [p]"
proof -
  note a = ratesInRange_bounds(1,2) [OF rc]
  note d = ratesInRange_bounds(3) [OF rc]
  note p = speedsInRange_bounds [OF inv]
  have tl: "0 \<le> driveSpeed nl" "driveSpeed nl \<le> 1000"
    using driveSpeed_range [OF dom(1,2)] by simp_all
  have tr: "0 \<le> driveSpeed nr" "driveSpeed nr \<le> 1000"
    using driveSpeed_range [OF dom(3,4)] by simp_all
  let ?ql = "drive_left_ramp (accRate cfg) (prevLeft st) (driveSpeed nl)"
  let ?qr = "drive_right_ramp (accRate cfg) (prevRight st) (driveSpeed nr)"
  let ?st' = "st\<lparr> prevLeft := ?ql, prevRight := ?qr\<rparr>"
  have l: "0 \<le> ?ql" "?ql \<le> 1000" using left_ramp_range [OF a p(1,2) tl] by simp_all
  have r: "0 \<le> ?qr" "?qr \<le> 1000" using right_ramp_range [OF a p(3,4) tr] by simp_all
  have ev: "driveStep cfg st nl nr = (?st', lastPulses ?st')"
    by (simp add: driveStep_eval [OF rc inv dom] lastPulses_def)
  have inv': "speedsInRange ?st'" using l r by (simp add: speedsInRange_def pulse_defs)
  have sl: "accRate cfg + decRate cfg \<le> NEUTRAL_SPEED \<Longrightarrow>
      sideInv (decRate cfg) (prevLeft st) (driveSpeed nl) \<Longrightarrow>
      noAbruptFlip (decRate cfg) (REVERSE_PULSE + prevLeft st) (REVERSE_PULSE + ?ql) \<and>
      sideInv (decRate cfg) ?ql (driveSpeed nl)"
    by (rule left_ramp_side [OF a p(1,2) tl d]) (simp_all add: NEUTRAL_SPEED_def)
  have sr: "accRate cfg + decRate cfg \<le> NEUTRAL_SPEED \<Longrightarrow>
      sideInv (decRate cfg) (prevRight st) (driveSpeed nr) \<Longrightarrow>
      noAbruptFlip (decRate cfg) (REVERSE_PULSE + prevRight st) (REVERSE_PULSE + ?qr) \<and>
      sideInv (decRate cfg) ?qr (driveSpeed nr)"
    by (rule right_ramp_side [OF a p(3,4) tr d]) (simp_all add: NEUTRAL_SPEED_def)
  have "driveResult cfg st nl nr ?st' [lastPulses ?st']"
    unfolding driveResult_def
    using inv' nd speedsInRange_pulses [OF inv'] sl sr
    by (auto simp add: noAbruptFlips_def lastPulses_def)
  with ev show ?thesis by blast
qed

lemma drive_total:
  assumes rc: "ratesInRange cfg" and inv: "speedsInRange st"
    and dom: "- 512 \<le> nl" "nl \<le> 512" "- 512 \<le> nr" "nr \<le> 512"
  shows "\<exists>st' out. drive cfg st nl nr = Some (st', out) \<and> driveResult cfg st nl nr st' out"
proof (cases "directionChanged st")
  case False
  from driveStep_result [OF rc inv dom False] obtain st' p
    where "driveStep cfg st nl nr = (st', p)" "driveResult cfg st nl nr st' [p]" by blast
  with False show ?thesis by (simp add: drive_def)
next
  case True
  note d = ratesInRange_bounds(3,4) [OF rc]
  from inv have "u16 (prevLeft st) = prevLeft st" "u16 (prevRight st) = prevRight st"
    by (simp_all add: speedsInRange_def pulse_defs u16_id)
  then have eq: "resetMotorSpeeds cfg st = resetLoop cfg st (prevLeft st) (prevRight st)"
    by (simp add: resetMotorSpeeds_def)
  from resetLoop_total [OF d inv] obtain st1 out1
    where run: "resetLoop cfg st (prevLeft st) (prevRight st) = Some (st1, out1)"
      and res: "resyncResult cfg st st1 out1" by blast
  from res have nd1: "\<not> directionChanged st1" and inv1: "speedsInRange st1"
    and same1: "prevLeftMotorSpeed st1 = prevLeftMotorSpeed st"
      "prevRightMotorSpeed st1 = prevRightMotorSpeed st"
    and near1: "\<not> leftResetComplete st \<Longrightarrow> nearNeutral (decRate cfg) (prevLeft st1)"
      "\<not> rightResetComplete st \<Longrightarrow> nearNeutral (decRate cfg) (prevRight st1)"
    and succ1: "successively (resyncCycle (decRate cfg)) (lastPulses st # out1)"
    and last1: "last (lastPulses st # out1) = lastPulses st1"
    and range1: "list_all pulsesInRange out1"
    using True by (simp_all add: resyncResult_def)
  from driveStep_result [OF rc inv1 dom nd1] obtain st2 p
    where step: "driveStep cfg st1 nl nr = (st2, p)"
      and res2: "driveResult cfg st1 nl nr st2 [p]" by blast
  have run2: "drive cfg st nl nr = Some (st2, out1 @ [p])"
    using True eq run step by (simp add: drive_def)
  have flips1: "successively (noAbruptFlips (decRate cfg)) (lastPulses st # out1)"
    using succ1 by (rule successively_mono) (rule resyncCycle_noflip [OF d(1)])
  have app: "lastPulses st # out1 @ [p] = (lastPulses st # out1) @ [p]" by simp
  have "driveResult cfg st nl nr st2 (out1 @ [p])"
    unfolding driveResult_def app successively_append_iff
    using res2 nd1 same1 range1 last1 flips1 near1 True
    by (auto simp add: driveResult_def nearNeutral_sideInv)
  with run2 show ?thesis by blast
qed

section \<open>Runs of the control loop\<close>

lemma commitAndDrive_total:
  assumes rc: "ratesInRange cfg" and inv: "cycleInv cfg st" and dom: "targetInDomain sp"
  shows "\<exists>st' out. commitAndDrive cfg st sp = Some (st', out) \<and> cycleInv cfg st' \<and>
           list_all pulsesInRange out \<and>
           (accRate cfg + decRate cfg \<le> NEUTRAL_SPEED \<longrightarrow>
              successively (noAbruptFlips (decRate cfg)) (lastPulses st # out)) \<and>
           last (lastPulses st # out) = lastPulses st'"
proof -
  let ?st0 = "commitSpeeds st (fst sp) (snd sp)"
  from dom have dm: "- 512 \<le> s16 (fst sp)" "s16 (fst sp) \<le> 512"
    "- 512 \<le> s16 (snd sp)" "s16 (snd sp) \<le> 512"
    by (simp_all add: targetInDomain_def)
  from inv have inv0: "speedsInRange ?st0"
    by (simp add: cycleInv_def commitSpeeds_def speedsInRange_def Let_def)
  have lp: "lastPulses ?st0 = lastPulses st"
    by (simp add: commitSpeeds_def lastPulses_def Let_def)
  have committed: "prevLeftMotorSpeed ?st0 = fst sp" "prevRightMotorSpeed ?st0 = snd sp"
    by (simp_all add: commitSpeeds_def Let_def)
  have pre: "accRate cfg + decRate cfg \<le> NEUTRAL_SPEED \<Longrightarrow>
      (directionChanged ?st0 \<longrightarrow> \<not> leftResetComplete ?st0 \<and> \<not> rightResetComplete ?st0) \<and>
      (\<not> directionChanged ?st0 \<longrightarrow>
         sideInv (decRate cfg) (prevLeft ?st0) (driveSpeed (s16 (fst sp))) \<and>
         sideInv (decRate cfg) (prevRight ?st0) (driveSpeed (s16 (snd sp))))"
    using inv by (auto simp add: cycleInv_def commitSpeeds_def Let_def)
  from drive_total [OF rc inv0 dm] obtain st' out
    where run: "drive cfg ?st0 (s16 (fst sp)) (s16 (snd sp)) = Some (st', out)"
      and res: "driveResult cfg ?st0 (s16 (fst sp)) (s16 (snd sp)) st' out" by blast
  from res pre have "cycleInv cfg st'"
    using committed dom by (simp add: driveResult_def cycleInv_def targetInDomain_def)
  moreover from res have "list_all pulsesInRange out"
    "last (lastPulses st # out) = lastPulses st'"
    unfolding driveResult_def lp by blast+
  moreover from res pre
  have "accRate cfg + decRate cfg \<le> NEUTRAL_SPEED \<longrightarrow>
      successively (noAbruptFlips (decRate cfg)) (lastPulses st # out)"
    unfolding driveResult_def lp by blast
  ultimately show ?thesis using run by (simp add: commitAndDrive_def)
qed

lemma cycles_total:
  assumes rc: "ratesInRange cfg"
  shows "cycleInv cfg st \<Longrightarrow> list_all targetInDomain sps \<Longrightarrow>
     \<exists>st' out. cycles cfg st sps = Some (st', out) \<and> cycleInv cfg st' \<and>
        list_all pulsesInRange out \<and>
        (accRate cfg + decRate cfg \<le> NEUTRAL_SPEED \<longrightarrow>
           successively (noAbruptFlips (decRate cfg)) (lastPulses st # out)) \<and>
        last (lastPulses st # out) = lastPulses st'"
proof (induction sps arbitrary: st)
  case Nil
  then show ?case by simp
next
  case (Cons sp sps)
  from Cons.prems have dom: "targetInDomain sp" and doms: "list_all targetInDomain sps" by simp_all
  from commitAndDrive_total [OF rc Cons.prems(1) dom] obtain st1 out1
    where run1: "commitAndDrive cfg st sp = Some (st1, out1)" and inv1: "cycleInv cfg st1"
      and range1: "list_all pulsesInRange out1"
      and flips1: "accRate cfg + decRate cfg \<le> NEUTRAL_SPEED \<longrightarrow>
          successively (noAbruptFlips (decRate cfg)) (lastPulses st # out1)"
      and last1: "last (lastPulses st # out1) = lastPulses st1" by blast
  from Cons.IH [OF inv1 doms] obtain st2 out2
    where run2: "cycles cfg st1 sps = Some (st2, out2)" and inv2: "cycleInv cfg st2"
      and range2: "list_all pulsesInRange out2"
      and flips2: "accRate cfg + decRate cfg \<le> NEUTRAL_SPEED \<longrightarrow>
          successively (noAbruptFlips (decRate cfg)) (lastPulses st1 # out2)"
      and last2: "last (lastPulses st1 # out2) = lastPulses st2" by blast
  have run: "cycles cfg st (sp # sps) = Some (st2, out1 @ out2)"
    using run1 run2 by simp
  have app: "lastPulses st # out1 @ out2 = (lastPulses st # out1) @ out2" by simp
  have flips: "accRate cfg + decRate cfg \<le> NEUTRAL_SPEED \<longrightarrow>
      successively (noAbruptFlips (decRate cfg)) (lastPulses st # out1 @ out2)"
    unfolding app successively_append_iff
    using flips1 flips2 last1 by (auto simp add: successively_Cons)
  have lst: "last (lastPulses st # out1 @ out2) = lastPulses st2"
    using last1 last2 by (cases "out2 = []") (simp_all add: app del: append_Cons)
  from run inv2 range1 range2 flips lst show ?case by simp
qed

lemma coldStart_inv: "1 \<le> decRate cfg \<Longrightarrow> cycleInv cfg coldStart"
  by (simp add: cycleInv_def coldStart_def speedsInRange_def targetInDomain_def sideInv_def
      s16_def pulse_defs)

lemma forwardThenReverse_run:
  "cycles defaultSettings coldStart forwardThenReverse =
     Some (\<lparr> directionChanged = False, leftResetComplete = True, rightResetComplete = True,
             prevLeftMotorSpeed = 65280, prevRightMotorSpeed = 65280,
             prevLeft = 490, prevRight = 490 \<rparr>,
           [(1500, 1500), (1515, 1515), (1530, 1530), (1545, 1545), (1525, 1525),
            (1505, 1505), (1505, 1505), (1490, 1490)])"
  by code_simp

text \<open>
  C5. In every run from the cold-start state over targets in the declared domain -512..512,
  with each rate between one unit and \<open>NEUTRAL_SPEED\<close> (which covers every rate the
  program can be configured with), every call returns and every pulse written,
  by the resync loop and by the rate limiter of \<open>drive\<close>, for the left and for the right
  motor, lies within \<open>REVERSE_PULSE\<close> .. \<open>FORWARD_PULSE\<close>.
\<close>

theorem pulses_within_limits:
  assumes "ratesInRange cfg" and "list_all targetInDomain sps"
  shows "\<exists>st out. cycles cfg coldStart sps = Some (st, out) \<and> list_all pulsesInRange out"
proof -
  from assms(1) have "1 \<le> decRate cfg" by (simp add: ratesInRange_def)
  then have "cycleInv cfg coldStart" by (rule coldStart_inv)
  from cycles_total [OF assms(1) this assms(2)] show ?thesis by blast
qed

theorem pulses_within_limits_witness:
  "ratesInRange defaultSettings \<and> list_all targetInDomain forwardThenReverse \<and>
   (\<exists>st out. cycles defaultSettings coldStart forwardThenReverse = Some (st, out) \<and>
      list_all pulsesInRange out) \<and>
   map_option snd (cycles defaultSettings coldStart forwardThenReverse) =
     Some [(1500, 1500), (1515, 1515), (1530, 1530), (1545, 1545), (1525, 1525),
           (1505, 1505), (1505, 1505), (1490, 1490)]"
proof -
  have h1: "ratesInRange defaultSettings"
    by (simp add: ratesInRange_def defaultSettings_def NEUTRAL_SPEED_def)
  have h2: "list_all targetInDomain forwardThenReverse"
    by (simp add: forwardThenReverse_def targetInDomain_def s16_def)
  from pulses_within_limits [OF h1 h2] h1 h2 show ?thesis
    by (simp add: forwardThenReverse_run)
qed

text \<open>
  C1, as amended. In every run from the cold-start state over targets in the declared domain,
  with each rate at least one unit and both together at most \<open>NEUTRAL_SPEED\<close> (which
  covers every rate the program can be configured with): whenever two successive pulses of a
  motor lie
  on opposite sides of the neutral pulse, the earlier of the two is within one deceleration step
  of neutral. The resync loop stops within one step of neutral, and the rate limiter then
  crosses neutral from there; a pulse of exactly 1500 need not occur.
\<close>

theorem flips_start_near_neutral:
  assumes "ratesConfigured cfg" and "list_all targetInDomain sps"
  shows "\<exists>st out. cycles cfg coldStart sps = Some (st, out) \<and>
           successively (noAbruptFlips (decRate cfg)) (lastPulses coldStart # out)"
proof -
  from assms(1) have r: "ratesInRange cfg" by (rule ratesConfigured_inRange)
  from assms(1) have b: "accRate cfg + decRate cfg \<le> NEUTRAL_SPEED"
    and "1 \<le> decRate cfg" by (simp_all add: ratesConfigured_def)
  then have "cycleInv cfg coldStart" by (intro coldStart_inv)
  from cycles_total [OF r this assms(2)] b show ?thesis by blast
qed

theorem flips_start_near_neutral_witness:
  "ratesConfigured defaultSettings \<and> list_all targetInDomain forwardThenReverse \<and>
   (\<exists>st out. cycles defaultSettings coldStart forwardThenReverse = Some (st, out) \<and>
      successively (noAbruptFlips (decRate defaultSettings)) (lastPulses coldStart # out)) \<and>
   oppositeSides 1505 1490 \<and> noAbruptFlip (decRate defaultSettings) 1505 1490 \<and>
   \<not> noAbruptFlip (decRate defaultSettings) 1545 1490"
proof -
  have h1: "ratesConfigured defaultSettings"
    by (simp add: ratesConfigured_def defaultSettings_def NEUTRAL_SPEED_def)
  have h2: "list_all targetInDomain forwardThenReverse"
    by (simp add: forwardThenReverse_def targetInDomain_def s16_def)
  have h3: "oppositeSides 1505 1490 \<and> noAbruptFlip (decRate defaultSettings) 1505 1490 \<and>
   \<not> noAbruptFlip (decRate defaultSettings) 1545 1490"
    by (simp add: oppositeSides_def noAbruptFlip_def defaultSettings_def pulse_defs)
  from flips_start_near_neutral [OF h1 h2] h1 h2 h3 show ?thesis by blast
qed

text \<open>
  The statement with a cycle that is exactly neutral fails. With the default settings and
  trims, the joystick held forward for three cycles and then pulled back gives the left
  pulses 1500, 1515, 1530, 1545, 1525, 1505, 1505, 1490: the pulse goes from above neutral
  to below it and is never 1500 in between.
\<close>

theorem sign_flip_without_neutral:
  "getJoystickInputs defaultSettings 512 512 700 700 = (256, - 1) \<and>
   getJoystickInputs defaultSettings 512 512 300 300 = (- 256, - 1) \<and>
   controlLoop defaultSettings defaultTrims coldStart
       [(256, - 1), (256, - 1), (256, - 1), (- 256, - 1)] =
     Some (\<lparr> directionChanged = False, leftResetComplete = True, rightResetComplete = True,
             prevLeftMotorSpeed = 65280, prevRightMotorSpeed = 65280,
             prevLeft = 490, prevRight = 490 \<rparr>,
           [(1500, 1500), (1515, 1515), (1530, 1530), (1545, 1545), (1525, 1525),
            (1505, 1505), (1505, 1505), (1490, 1490)]) \<and>
   \<not> neutralBetweenFlips 0 [1500, 1515, 1530, 1545, 1525, 1505, 1505, 1490]"
  by code_simp

text \<open>
  C6, as amended. In \<open>drive\<close> one cycle changes the speed of the left motor by at most
  \<open>accRate\<close>, whether the speed rises or falls, and the speed of the right motor too when
  its target is below full scale; \<open>decRate\<close> bounds the change of a cycle of the resync loop
  only.
\<close>

theorem drive_bounded_by_accRate:
  assumes rc: "ratesInRange cfg" and inv: "speedsInRange st"
    and dom: "- 512 \<le> nl" "nl \<le> 512" "- 512 \<le> nr" "nr \<le> 512"
  shows "\<bar>prevLeft (fst (driveStep cfg st nl nr)) - prevLeft st\<bar> \<le> accRate cfg \<and>
         (driveSpeed nr < FORWARD_PULSE - REVERSE_PULSE \<longrightarrow>
            \<bar>prevRight (fst (driveStep cfg st nl nr)) - prevRight st\<bar> \<le> accRate cfg) \<and>
         \<bar>prevLeft (fst (fst (resetIteration cfg st (prevLeft st) (prevRight st)))) - prevLeft st\<bar>
            \<le> decRate cfg \<and>
         \<bar>prevRight (fst (fst (resetIteration cfg st (prevLeft st) (prevRight st)))) - prevRight st\<bar>
            \<le> decRate cfg"
proof -
  note a = ratesInRange_bounds(1,2) [OF rc]
  note d = ratesInRange_bounds(3,4) [OF rc]
  note p = speedsInRange_bounds [OF inv]
  have tl: "0 \<le> driveSpeed nl" "driveSpeed nl \<le> 1000"
    using driveSpeed_range [OF dom(1,2)] by simp_all
  have tr: "0 \<le> driveSpeed nr" "driveSpeed nr \<le> 1000"
    using driveSpeed_range [OF dom(3,4)] by simp_all
  have "\<bar>resetTarget (decRate cfg) (prevLeft st) - prevLeft st\<bar> \<le> decRate cfg"
    "\<bar>resetTarget (decRate cfg) (prevRight st) - prevRight st\<bar> \<le> decRate cfg"
    using d by (simp_all add: resetTarget_def)
  then show ?thesis
    using left_ramp_range [OF a p(1,2) tl] right_ramp_range [OF a p(3,4) tr]
    by (simp add: driveStep_eval [OF rc inv dom] resetIteration_eval [OF d inv]
        afterIteration_def pulse_defs)
qed

theorem drive_bounded_by_accRate_witness:
  "ratesInRange (defaultSettings\<lparr> accRate := 30 \<rparr>) \<and> speedsInRange afterResync \<and>
   \<bar>prevLeft (fst (driveStep (defaultSettings\<lparr> accRate := 30 \<rparr>) afterResync (- 512) 508))
      - prevLeft afterResync\<bar> \<le> accRate (defaultSettings\<lparr> accRate := 30 \<rparr>) \<and>
   driveSpeed 508 < FORWARD_PULSE - REVERSE_PULSE \<and>
   \<bar>prevRight (fst (driveStep (defaultSettings\<lparr> accRate := 30 \<rparr>) afterResync (- 512) 508))
      - prevRight afterResync\<bar> \<le> accRate (defaultSettings\<lparr> accRate := 30 \<rparr>) \<and>
   \<bar>prevLeft (fst (fst (resetIteration (defaultSettings\<lparr> accRate := 30 \<rparr>) afterResync
        (prevLeft afterResync) (prevRight afterResync)))) - prevLeft afterResync\<bar>
      \<le> decRate (defaultSettings\<lparr> accRate := 30 \<rparr>)"
proof -
  have h1: "ratesInRange (defaultSettings\<lparr> accRate := 30 \<rparr>)"
    by (simp add: ratesInRange_def defaultSettings_def NEUTRAL_SPEED_def)
  have h2: "speedsInRange afterResync"
    by (simp add: speedsInRange_def afterResync_def coldStart_def pulse_defs)
  have h3: "driveSpeed 508 < FORWARD_PULSE - REVERSE_PULSE"
    by (simp add: driveSpeed_def arduino_map_def cdiv_def u16_def pulse_defs)
  from drive_bounded_by_accRate [OF h1 h2, of "- 512" 508] h1 h2 h3 show ?thesis by simp
qed

text \<open>
  The statement with \<open>decRate\<close> for falling speeds in \<open>drive\<close> fails. With \<open>accRate = 30\<close>
  and \<open>decRate = 20\<close>, from speed 520 (where a resync from above ends) and a full reverse
  target, the left speed becomes 490: closer to neutral than before, and 30 away from 520.
\<close>

theorem drive_decrease_exceeds_decRate:
  "prevLeft (fst (driveStep (defaultSettings\<lparr> accRate := 30 \<rparr>) afterResync (- 512) (- 512))) = 490 \<and>
   prevLeft afterResync = 520 \<and>
   \<bar>490 - NEUTRAL_SPEED\<bar> < \<bar>520 - NEUTRAL_SPEED\<bar> \<and>
   \<not> \<bar>490 - 520\<bar> \<le> decRate (defaultSettings\<lparr> accRate := 30 \<rparr>)"
  by (simp add: driveStep_def drive_left_ramp_def drive_right_ramp_def driveSpeed_def
      arduino_map_def cdiv_def u16_def s16_def pulse_defs defaultSettings_def coldStart_def
      afterResync_def)

section \<open>Classifier and target speeds\<close>

lemma s16_u16: "s16 (u16 x) = s16 x"
  by (simp add: s16_def u16_def mod_add_left_eq)

lemma u16_minus_u16: "u16 (- u16 x) = u16 (- x)"
  by (simp add: u16_def mod_minus_eq)

lemma map_between:
  assumes "0 \<le> x" "x \<le> 1023" "lo \<le> hi"
  shows "lo \<le> arduino_map x 0 1023 lo hi \<and> arduino_map x 0 1023 lo hi \<le> hi"
proof -
  have nn: "0 \<le> x * (hi - lo)" using assms by simp
  then have eq: "arduino_map x 0 1023 lo hi = x * (hi - lo) div 1023 + lo"
    by (simp add: arduino_map_def cdiv_nonneg)
  have "x * (hi - lo) \<le> 1023 * (hi - lo)"
    by (rule mult_right_mono) (use assms in simp_all)
  then have "x * (hi - lo) div 1023 \<le> 1023 * (hi - lo) div 1023" by (rule zdiv_mono1) simp
  moreover have "0 \<le> x * (hi - lo) div 1023" using nn by (simp add: pos_imp_zdiv_nonneg_iff)
  ultimately show ?thesis using eq by simp
qed

lemma turn_bounds:
  assumes "72 \<le> s" "s \<le> 512"
  shows "512 - s \<le> turnLow s" "turnLow s \<le> turnHigh s" "turnHigh s \<le> 512 + s"
  using assms by (simp_all add: turnLow_def turnHigh_def cdiv_nonneg)

lemma signed_offset:
  assumes "0 \<le> x" "x \<le> 1024"
  shows "(if x > 512 then s16 (u16 (x - 512)) else s16 (u16 (- u16 (512 - x)))) = x - 512"
  using assms by (simp add: u16_minus_u16 s16_u16 s16_id)

lemma bump_bounds:
  assumes "72 \<le> s" "s \<le> 512" "- s \<le> r" "r \<le> s"
  shows "\<bar>if r < - 3 \<and> u16 r > u16 (- MIN_SPEED_LIMIT) then s16 (u16 (- MIN_SPEED_LIMIT))
          else if r > 3 \<and> u16 r < MIN_SPEED_LIMIT then s16 MIN_SPEED_LIMIT else r\<bar> \<le> s"
  using assms by (auto simp add: MIN_SPEED_LIMIT_def s16_u16 s16_id)

lemma getJoystickInputs_range:
  assumes s: "72 \<le> speedLimit cfg" "speedLimit cfg \<le> 512"
  shows "\<bar>fst (getJoystickInputs cfg xa xb ya yb)\<bar> \<le> speedLimit cfg \<and>
         \<bar>snd (getJoystickInputs cfg xa xb ya yb)\<bar> \<le> speedLimit cfg"
proof -
  let ?s = "speedLimit cfg"
  define x0 :: int where "x0 = (if xa > rightThresh cfg then 1023 else if xb < leftThresh cfg then 0 else 512)"
  define y0 :: int where "y0 = (if ya > forwardThresh cfg then 1023 else if yb < reverseThresh cfg then 0 else 512)"
  define x where "x = u16 (arduino_map x0 0 1023 (turnLow ?s) (turnHigh ?s))"
  define y where "y = u16 (arduino_map y0 0 1023 (u16 (512 - ?s)) (u16 (512 + ?s)))"
  have x0r: "0 \<le> x0" "x0 \<le> 1023" and y0r: "0 \<le> y0" "y0 \<le> 1023"
    by (simp_all add: x0_def y0_def)
  have u: "u16 (512 - ?s) = 512 - ?s" "u16 (512 + ?s) = 512 + ?s"
    using s by (simp_all add: u16_id)
  have my: "512 - ?s \<le> arduino_map y0 0 1023 (512 - ?s) (512 + ?s)"
    "arduino_map y0 0 1023 (512 - ?s) (512 + ?s) \<le> 512 + ?s"
    using map_between [OF y0r, of "512 - ?s" "512 + ?s"] s by simp_all
  then have yr: "512 - ?s \<le> y" "y \<le> 512 + ?s"
    using s by (simp_all add: y_def u u16_id)
  have mx: "turnLow ?s \<le> arduino_map x0 0 1023 (turnLow ?s) (turnHigh ?s)"
    "arduino_map x0 0 1023 (turnLow ?s) (turnHigh ?s) \<le> turnHigh ?s"
    using map_between [OF x0r turn_bounds(2) [OF s]] by simp_all
  then have xr: "512 - ?s \<le> x" "x \<le> 512 + ?s"
    using s turn_bounds(1,3) [OF s] by (simp_all add: x_def u16_id)
  have mv: "(if y > 512 then s16 (u16 (y - 512)) else s16 (u16 (- u16 (512 - y)))) = y - 512"
    using yr s by (intro signed_offset) simp_all
  have rv: "(if x > 512 then s16 (u16 (x - 512)) else s16 (u16 (- u16 (512 - x)))) = x - 512"
    using xr s by (intro signed_offset) simp_all
  have b: "\<bar>if x - 512 < - 3 \<and> u16 (x - 512) > u16 (- MIN_SPEED_LIMIT) then s16 (u16 (- MIN_SPEED_LIMIT))
          else if x - 512 > 3 \<and> u16 (x - 512) < MIN_SPEED_LIMIT then s16 MIN_SPEED_LIMIT else x - 512\<bar> \<le> ?s"
    using xr by (intro bump_bounds [OF s]) simp_all
  have "getJoystickInputs cfg xa xb ya yb =
    (y - 512, if x - 512 < - 3 \<and> u16 (x - 512) > u16 (- MIN_SPEED_LIMIT) then s16 (u16 (- MIN_SPEED_LIMIT))
          else if x - 512 > 3 \<and> u16 (x - 512) < MIN_SPEED_LIMIT then s16 MIN_SPEED_LIMIT else x - 512)"
    unfolding getJoystickInputs_def Let_def x0_def [symmetric] y0_def [symmetric]
      x_def [symmetric] y_def [symmetric] mv rv by simp
  then show ?thesis using b yr by simp
qed

lemma motorSpeeds_range:
  assumes s: "s \<le> 512" and m: "\<bar>m\<bar> \<le> s" and r: "\<bar>r\<bar> \<le> s" and t: "trimsWithin s t"
  shows "\<bar>s16 (fst (motorSpeeds t m r))\<bar> \<le> s \<and> \<bar>s16 (snd (motorSpeeds t m r))\<bar> \<le> s"
proof -
  from m r have b: "- s \<le> m" "m \<le> s" "- s \<le> r" "r \<le> s" by simp_all
  from t have tr: "0 \<le> FWD_LEFT_TRIM t" "FWD_LEFT_TRIM t \<le> s" "0 \<le> REV_LEFT_TRIM t"
    "REV_LEFT_TRIM t \<le> s" "0 \<le> FWD_RIGHT_TRIM t" "FWD_RIGHT_TRIM t \<le> s"
    "0 \<le> REV_RIGHT_TRIM t" "REV_RIGHT_TRIM t \<le> s"
    by (simp_all add: trimsWithin_def)
  have k: "\<bar>s16 (u16 v)\<bar> \<le> s" if "- s \<le> v" "v \<le> s" for v
    using that s by (simp add: s16_u16 s16_id)
  from b have s0: "0 \<le> s" by simp
  show ?thesis
    unfolding motorSpeeds_def using b tr s0
    by (auto intro!: k simp add: s16_id)
qed

text \<open>
  C8, as amended. For a speed limit within \<open>MIN_SPEED_LIMIT\<close> .. \<open>MAX_SPEED_LIMIT\<close>, any
  four joystick samples and any thresholds, and trims that are each at most the speed limit,
  the left and right target speeds have magnitude at most the speed limit. The trims are
  subtracted or added as they are; nothing clamps the result.
\<close>

theorem targets_within_limit:
  assumes "MIN_SPEED_LIMIT \<le> speedLimit cfg" and "speedLimit cfg \<le> MAX_SPEED_LIMIT"
    and "trimsWithin (speedLimit cfg) t"
  shows "\<bar>s16 (fst (targetSpeeds cfg t xa xb ya yb))\<bar> \<le> speedLimit cfg \<and>
         \<bar>s16 (snd (targetSpeeds cfg t xa xb ya yb))\<bar> \<le> speedLimit cfg"
proof -
  from assms(1,2) have s: "72 \<le> speedLimit cfg" "speedLimit cfg \<le> 512"
    by (simp_all add: limit_defs)
  obtain m r where g: "getJoystickInputs cfg xa xb ya yb = (m, r)" by (cases "getJoystickInputs cfg xa xb ya yb")
  with getJoystickInputs_range [OF s, of xa xb ya yb]
  have "\<bar>m\<bar> \<le> speedLimit cfg" "\<bar>r\<bar> \<le> speedLimit cfg" by simp_all
  from motorSpeeds_range [OF s(2) this assms(3)] g show ?thesis
    by (simp add: targetSpeeds_def)
qed

theorem targets_within_limit_witness:
  "MIN_SPEED_LIMIT \<le> speedLimit defaultSettings \<and> speedLimit defaultSettings \<le> MAX_SPEED_LIMIT \<and>
   trimsWithin (speedLimit defaultSettings) defaultTrims \<and>
   targetSpeeds defaultSettings defaultTrims 512 512 700 700 = (256, 252) \<and>
   \<bar>s16 (fst (targetSpeeds defaultSettings defaultTrims 512 512 700 700))\<bar>
      \<le> speedLimit defaultSettings \<and>
   \<bar>s16 (snd (targetSpeeds defaultSettings defaultTrims 512 512 700 700))\<bar>
      \<le> speedLimit defaultSettings"
proof -
  have h: "MIN_SPEED_LIMIT \<le> speedLimit defaultSettings"
    "speedLimit defaultSettings \<le> MAX_SPEED_LIMIT"
    "trimsWithin (speedLimit defaultSettings) defaultTrims"
    by (simp_all add: defaultSettings_def defaultTrims_def trimsWithin_def limit_defs)
  have e: "targetSpeeds defaultSettings defaultTrims 512 512 700 700 = (256, 252)"
    by code_simp
  from targets_within_limit [OF h, of 512 512 700 700] h e show ?thesis by simp
qed

text \<open>
  Without the bound on the trims the statement fails. With a speed limit of 72 and a forward
  trim of 255 on the left motor (any \<open>uint8_t\<close> value can be set; the wizard reaches 255 by
  decreasing a trim of 0), the joystick pushed forward gives a left target of 72 - 255,
  stored as 65353 and passed to \<open>drive\<close> as -183.
\<close>

theorem trim_exceeds_limit:
  "speedLimit (defaultSettings\<lparr> speedLimit := 72 \<rparr>) = 72 \<and>
   getJoystickInputs (defaultSettings\<lparr> speedLimit := 72 \<rparr>) 512 512 700 700 = (72, 0) \<and>
   targetSpeeds (defaultSettings\<lparr> speedLimit := 72 \<rparr>) (zeroTrims\<lparr> FWD_LEFT_TRIM := 255 \<rparr>)
     512 512 700 700 = (65353, 72) \<and>
   s16 65353 = - 183 \<and>
   \<not> \<bar>s16 (fst (targetSpeeds (defaultSettings\<lparr> speedLimit := 72 \<rparr>)
          (zeroTrims\<lparr> FWD_LEFT_TRIM := 255 \<rparr>) 512 512 700 700))\<bar>
      \<le> speedLimit (defaultSettings\<lparr> speedLimit := 72 \<rparr>)"
  by code_simp

end
